theory Spec2Isabelle
  imports Complex_Main "HOL-Library.Word"
begin

unbundle bit_operations_syntax

section \<open>Data model of the DHT node (package network, file dht.go)\<close>

type_synonym byte = "8 word"

text \<open>A Go \<open>[]byte\<close> of which dht.go takes the length and the contents only: the nil
  slice and the empty slice have the same, and both are the empty list. A value that
  dht.go compares with nil is a \<open>slice\<close> (below), which keeps the two apart.\<close>
type_synonym bytes = "byte list"

text \<open>An identifier of a node or a key of the store. An identifier has \<open>K\<close> bytes; the
  identifier that is absent (nil in dht.go) is the empty list.\<close>
type_synonym id = "byte list"

text \<open>Wall-clock instants and durations, both counted in nanoseconds.\<close>
type_synonym time = int

text \<open>Modelled from the spec: the constants of package routing that dht.go refers to,
  with the values of the configuration defaults (K = 20, 8 * K = 160 bits,
  alpha = 3).\<close>

definition MaxContactsInBucket :: nat where
  "MaxContactsInBucket = 20"

definition KeyBitSize :: nat where
  "KeyBitSize = 160"

definition ParallelCalls :: nat where
  "ParallelCalls = 3"

text \<open>Modelled from the spec: a node is an identifier, which may be absent, and an
  address (package node is not part of the sources at hand).\<close>
record node =
  ID :: id
  Address :: string

text \<open>Modelled from the spec: a routing-table entry is a node and a last-seen time.\<close>
record route_node =
  Node :: node
  LastSeen :: time

text \<open>Modelled from the spec: a route node wraps a node with its last-seen time.\<close>
definition NewRouteNode :: "node \<Rightarrow> route_node" where
  "NewRouteNode n = \<lparr>Node = n, LastSeen = 0\<rparr>"

text \<open>Modelled from the spec: the routing table of one identity, with the origin node,
  the array of buckets and the refresh clock of each bucket.\<close>
record hash_table =
  Origin :: node
  RoutingTable :: "route_node list list"
  refreshMap :: "time list"

text \<open>A byte slice that dht.go compares with nil: \<open>None\<close> is the nil slice, and
  \<open>Some []\<close> is a slice that is empty but not nil.\<close>
type_synonym slice = "bytes option"

text \<open>Modelled from the spec: the five types of message, the shapes of their request
  and response payloads, and the message itself (package message is not part of the
  sources at hand). The value of a FindValue response is a slice that may be nil.\<close>
datatype message_type = TypePing | TypeStore | TypeFindNode | TypeFindValue | TypeRPC

datatype payload =
    NoData
  | RequestDataFindNode id
  | RequestDataFindValue id
  | RequestDataStore bytes
  | RequestDataRPC string "bytes list"
  | ResponseDataFindNode "node list"
  | ResponseDataFindValue "node list" slice
  | ResponseDataRPC bool bytes string

record message =
  Sender :: node
  Receiver :: node
  Type :: message_type
  RequestID :: bytes
  Data :: payload
  Error :: "string option"
  IsResponse :: bool

text \<open>What Go does when the program cannot go on: a run-time panic, or \<open>Fatal\<close> of package log.\<close>
datatype go_panic =
    NilDereference
  | IndexOutOfRange
  | TypeAssertionFailed
  | UndefinedBucketIndex
  | FatalError string

subsection \<open>The transport, seen from dht.go\<close>

text \<open>Package transport is known by its factory only. Modelled from the spec: what a
  future delivers to the \<open>select\<close> that waits on it, which is a response, a closed
  result channel (a nil message), or nothing before the caller's timer fires.\<close>
datatype future = Reply message | Closed | NoReply

text \<open>\<open>SendRequest\<close> returns a pair \<open>(Future, error)\<close>; either component may be nil.\<close>
type_synonym send_result = "future option \<times> string option"

text \<open>What the node has asked of its transport, in order.\<close>
datatype event =
    Requested message
  | Responded bytes message
  | Cancelled message

text \<open>The transport is the environment of the node: \<open>respond\<close> is what the network
  does with a request, \<open>calls\<close> records the calls made so far.\<close>
record transport =
  respond :: "message \<Rightarrow> send_result"
  calls :: "event list"

definition SendRequest :: "transport \<Rightarrow> message \<Rightarrow> send_result \<times> transport" where
  "SendRequest tr m = (respond tr m, tr\<lparr>calls := calls tr @ [Requested m]\<rparr>)"

text \<open>The error that \<open>SendResponse\<close> may return is only printed by its callers.\<close>
definition SendResponse :: "transport \<Rightarrow> bytes \<Rightarrow> message \<Rightarrow> transport" where
  "SendResponse tr rid m = tr\<lparr>calls := calls tr @ [Responded rid m]\<rparr>"

text \<open>\<open>future.Cancel()\<close> on the future of request \<open>m\<close>.\<close>
definition Cancel :: "transport \<Rightarrow> message \<Rightarrow> transport" where
  "Cancel tr m = tr\<lparr>calls := calls tr @ [Cancelled m]\<rparr>"

text \<open>Modelled from the spec: a Ping request has no payload.\<close>
definition NewPingMessage :: "node \<Rightarrow> node \<Rightarrow> message" where
  "NewPingMessage sender receiver =
     \<lparr>Sender = sender, Receiver = receiver, Type = TypePing, RequestID = [],
      Data = NoData, Error = None, IsResponse = False\<rparr>"

section \<open>Routing table (package routing)\<close>

text \<open>Package routing is not part of the sources at hand: what dht.go calls of it is
  modelled from the spec, function by function.\<close>

text \<open>Modelled from the spec: the bits of a byte, most significant bit first.\<close>
definition byte_bits :: "byte \<Rightarrow> bool list" where
  "byte_bits b = map (\<lambda>i. bit b (7 - i)) [0..<8]"

text \<open>Modelled from the spec: the bits of an identifier, bit 0 being the most
  significant bit of the first byte.\<close>
definition id_bits :: "id \<Rightarrow> bool list" where
  "id_bits x = concat (map byte_bits x)"

text \<open>Modelled from the spec: the index of the first position in which two bit strings
  differ, if there is one.\<close>
fun first_differing :: "bool list \<Rightarrow> bool list \<Rightarrow> nat option" where
  "first_differing (x # xs) (y # ys) =
     (if x \<noteq> y then Some 0 else map_option Suc (first_differing xs ys))"
| "first_differing _ _ = None"

text \<open>Modelled from the spec: \<open>bucket-index(self, other)\<close> is the index of the
  highest-order bit in which the two identifiers differ, bit 0 being the most
  significant; for equal identifiers the index is undefined (\<open>None\<close>).\<close>
definition GetBucketIndexFromDifferingBit :: "id \<Rightarrow> id \<Rightarrow> nat option" where
  "GetBucketIndexFromDifferingBit id1 id2 = first_differing (id_bits id1) (id_bits id2)"

text \<open>Modelled from the spec: membership test of an identifier in bucket \<open>i\<close>.\<close>
definition DoesNodeExistInBucket :: "hash_table \<Rightarrow> nat \<Rightarrow> id \<Rightarrow> bool" where
  "DoesNodeExistInBucket ht i nid =
     (i < length (RoutingTable ht) \<and> nid \<in> set (map (ID \<circ> Node) (RoutingTable ht ! i)))"

text \<open>Modelled from the spec: the entry with the given identifier moves to the tail of
  a bucket and its last-seen time becomes now.\<close>
fun move_to_tail :: "time \<Rightarrow> id \<Rightarrow> route_node list \<Rightarrow> route_node list" where
  "move_to_tail now nid [] = []"
| "move_to_tail now nid (r # rs) =
     (if ID (Node r) = nid then rs @ [r\<lparr>LastSeen := now\<rparr>] else r # move_to_tail now nid rs)"

text \<open>Modelled from the spec: \<open>mark-as-seen(id)\<close> moves the entry to the tail of its
  bucket and updates last-seen. A table that does not hold the identifier is left as
  it is.\<close>
definition MarkNodeAsSeen :: "time \<Rightarrow> hash_table \<Rightarrow> id \<Rightarrow> hash_table" where
  "MarkNodeAsSeen now ht nid =
     (case GetBucketIndexFromDifferingBit (ID (Origin ht)) nid of
        None \<Rightarrow> ht
      | Some i \<Rightarrow>
          if i < length (RoutingTable ht)
          then ht\<lparr>RoutingTable := (RoutingTable ht)[i := move_to_tail now nid (RoutingTable ht ! i)]\<rparr>
          else ht)"

text \<open>Modelled from the spec: a byte string read as a big-endian unsigned integer.\<close>
definition be_int :: "bytes \<Rightarrow> int" where
  "be_int bs = foldl (\<lambda>acc b. acc * 256 + uint b) 0 bs"

text \<open>Modelled from the spec: \<open>distance(a, b) = a XOR b\<close>, compared as a big-endian
  unsigned integer.\<close>
definition distance :: "id \<Rightarrow> id \<Rightarrow> int" where
  "distance a b = be_int (map (\<lambda>(x, y). x XOR y) (zip a b))"

text \<open>Modelled from the spec: the count of entries in bucket \<open>i\<close>.\<close>
definition GetTotalNodesInBucket :: "hash_table \<Rightarrow> nat \<Rightarrow> nat" where
  "GetTotalNodesInBucket ht i = length (RoutingTable ht ! i)"

text \<open>Modelled from the spec: the entries of bucket \<open>i\<close> whose distance to the key is
  strictly less than the distance of the table's own identifier to the key.\<close>
definition GetAllNodesInBucketCloserThan :: "hash_table \<Rightarrow> nat \<Rightarrow> id \<Rightarrow> route_node list" where
  "GetAllNodesInBucketCloserThan ht i key =
     filter (\<lambda>r. distance (ID (Node r)) key < distance (ID (Origin ht)) key) (RoutingTable ht ! i)"

text \<open>Modelled from the spec: the sum of the bucket sizes.\<close>
definition TotalNodes :: "hash_table \<Rightarrow> nat" where
  "TotalNodes ht = sum_list (map length (RoutingTable ht))"

text \<open>Modelled from the spec: a route-set is a sequence of nodes kept in order of XOR
  distance to the target it was built for; the sort is stable, so that equal distances
  keep their order of insertion.\<close>
type_synonym route_set = "node list"

text \<open>Modelled from the spec: the stable sort of a route-set by distance to the target.\<close>
definition sort_route_set :: "id \<Rightarrow> route_set \<Rightarrow> route_set" where
  "sort_route_set target rs = sort_key (\<lambda>n. distance (ID n) target) rs"

text \<open>Modelled from the spec: \<open>extend\<close> appends and sorts again.\<close>
definition Extend :: "id \<Rightarrow> route_set \<Rightarrow> node list \<Rightarrow> route_set" where
  "Extend target rs ns = sort_route_set target (rs @ ns)"

text \<open>Modelled from the spec: \<open>remove(node)\<close>; a node is known by its identifier.\<close>
definition Remove :: "route_set \<Rightarrow> node \<Rightarrow> route_set" where
  "Remove rs n = filter (\<lambda>x. ID x \<noteq> ID n) rs"

text \<open>Modelled from the spec: the sorted route-set of up to \<open>n\<close> nodes nearest the key,
  excluding the identifiers in \<open>exclude\<close>, ties broken by first encounter.\<close>
definition GetClosestContacts :: "hash_table \<Rightarrow> nat \<Rightarrow> id \<Rightarrow> node list \<Rightarrow> route_set" where
  "GetClosestContacts ht n key exclude =
     take n (sort_route_set key
       (filter (\<lambda>x. ID x \<notin> set (map ID exclude)) (map Node (concat (RoutingTable ht)))))"

text \<open>Modelled from the spec: \<open>get-refresh-time-for-bucket(i)\<close> reads the refresh clock
  of bucket \<open>i\<close>.\<close>
definition GetRefreshTimeForBucket :: "hash_table \<Rightarrow> nat \<Rightarrow> time" where
  "GetRefreshTimeForBucket ht i = refreshMap ht ! i"

text \<open>Modelled from the spec: \<open>reset-refresh-time-for-bucket(i)\<close> sets the refresh clock
  of bucket \<open>i\<close> to now.\<close>
definition ResetRefreshTimeForBucket :: "time \<Rightarrow> hash_table \<Rightarrow> nat \<Rightarrow> hash_table" where
  "ResetRefreshTimeForBucket now ht i = ht\<lparr>refreshMap := (refreshMap ht)[i := now]\<rparr>"

text \<open>Modelled from the spec: the byte of up to eight bits, most significant bit first.\<close>
definition bits_byte :: "bool list \<Rightarrow> byte" where
  "bits_byte bs = foldl (\<lambda>acc b. 2 * acc + (if b then 1 else 0)) 0 bs"

text \<open>Modelled from the spec: the identifier of \<open>n\<close> bytes with the given bits.\<close>
fun bits_id :: "nat \<Rightarrow> bool list \<Rightarrow> id" where
  "bits_id 0 bs = []"
| "bits_id (Suc n) bs = bits_byte (take 8 bs) # bits_id n (drop 8 bs)"

text \<open>Modelled from the spec: \<open>get-random-id-from-bucket(i)\<close> returns an identifier that
  would fall into bucket \<open>i\<close>: it agrees with the table's own identifier on the bits
  before bit \<open>i\<close>, differs in bit \<open>i\<close>, and takes the remaining bits from the random
  bytes \<open>rnd\<close>.\<close>
definition GetRandomIDFromBucket :: "bytes \<Rightarrow> hash_table \<Rightarrow> nat \<Rightarrow> id" where
  "GetRandomIDFromBucket rnd ht i =
     (let own = id_bits (ID (Origin ht))
      in bits_id (length (ID (Origin ht)))
           (take i own @ map Not (take 1 (drop i own)) @ drop (Suc i) (id_bits rnd)))"

section \<open>Local store (package store)\<close>

text \<open>Package store is not part of the sources at hand either.\<close>

text \<open>Modelled from the spec: a store entry has the value, the replication deadline,
  the expiration deadline and the origin-publisher flag.\<close>
record store_entry =
  entry_value :: bytes
  replication_deadline :: time
  expiration_deadline :: time
  origin_publisher :: bool

text \<open>Modelled from the spec: the store maps a key to its entry.\<close>
type_synonym store = "(bytes \<times> store_entry) list"

text \<open>Modelled from the spec: \<open>store\<close> overwrites the prior value of the key. The spec
  names no failure of the store, so the error it returns is nil.\<close>
definition store_Store :: "store \<Rightarrow> bytes \<Rightarrow> bytes \<Rightarrow> time \<Rightarrow> time \<Rightarrow> bool \<Rightarrow> store \<times> string option" where
  "store_Store st key data replication expiration publisher =
     ((key, \<lparr>entry_value = data, replication_deadline = replication,
             expiration_deadline = expiration, origin_publisher = publisher\<rparr>)
        # filter (\<lambda>(k, e). k \<noteq> key) st, None)"

text \<open>Modelled from the spec: \<open>retrieve(key)\<close> gives the value and whether it exists;
  the value of a key that the store does not hold is nil.\<close>
definition Retrieve :: "store \<Rightarrow> bytes \<Rightarrow> slice \<times> bool" where
  "Retrieve st key =
     (case map_of st key of None \<Rightarrow> (None, False) | Some e \<Rightarrow> (Some (entry_value e), True))"

text \<open>Modelled from the spec: the keys whose replication deadline has passed and whose
  entry was published here.\<close>
definition GetKeysReadyToReplicate :: "time \<Rightarrow> store \<Rightarrow> bytes list" where
  "GetKeysReadyToReplicate now st =
     map fst (filter (\<lambda>(k, e). replication_deadline e \<le> now \<and> origin_publisher e) st)"

text \<open>Modelled from the spec: \<open>expire-keys()\<close> deletes every entry whose expiration
  deadline is not after now.\<close>
definition ExpireKeys :: "time \<Rightarrow> store \<Rightarrow> store" where
  "ExpireKeys now st = filter (\<lambda>(k, e). \<not> expiration_deadline e \<le> now) st"

section \<open>The DHT\<close>

text \<open>A \<open>time.Duration\<close> is a signed 64-bit count of nanoseconds.\<close>
type_synonym duration = "64 word"

definition Second :: duration where
  "Second = 1000000000"

record Options =
  BootstrapNodes :: "node list"
  ExpirationTime :: duration
  RefreshTime :: duration
  ReplicateTime :: duration
  RepublishTime :: duration
  PingTimeout :: duration
  MessageTimeout :: duration

text \<open>The defaults that \<open>NewDHT\<close> fills in for the options left at zero.\<close>
definition with_defaults :: "Options \<Rightarrow> Options" where
  "with_defaults opts =
     opts\<lparr>ExpirationTime := (if ExpirationTime opts = 0 then Second * 86410 else ExpirationTime opts),
          RefreshTime := (if RefreshTime opts = 0 then Second * 3600 else RefreshTime opts),
          ReplicateTime := (if ReplicateTime opts = 0 then Second * 3600 else ReplicateTime opts),
          RepublishTime := (if RepublishTime opts = 0 then Second * 86400 else RepublishTime opts),
          PingTimeout := (if PingTimeout opts = 0 then Second * 1 else PingTimeout opts),
          MessageTimeout := (if MessageTimeout opts = 0 then Second * 10 else MessageTimeout opts)\<rparr>"

text \<open>The registered remote procedures, seen through \<open>rpc.Invoke\<close>.\<close>
type_synonym rpc = "node \<Rightarrow> string \<Rightarrow> bytes list \<Rightarrow> bytes \<times> string option"

record DHT =
  tables :: "hash_table list"
  options :: Options
  store :: store
  rpc :: rpc

text \<open>The operation context carries the index of the routing table to use.\<close>
type_synonym Context = nat

definition htFromCtx :: "DHT \<Rightarrow> Context \<Rightarrow> hash_table" where
  "htFromCtx dht ctx = tables dht ! ctx"

definition set_table :: "DHT \<Rightarrow> Context \<Rightarrow> hash_table \<Rightarrow> DHT" where
  "set_table dht ctx ht = dht\<lparr>tables := (tables dht)[ctx := ht]\<rparr>"

text \<open>\<open>time.Now().Add(d)\<close>.\<close>
definition Add :: "time \<Rightarrow> duration \<Rightarrow> time" where
  "Add t d = t + sint d"

section \<open>addNode\<close>

text \<open>\<open>addNode\<close> of dht.go has two parts. The first runs before \<open>ht.Lock()\<close>: the
  bucket index and the test whether the bucket holds the identifier. It ends the call
  with the node marked as seen (the table, \<open>Inl\<close>), or it goes on to the lock with the
  index it computed (\<open>Inr\<close>). \<open>now\<close> is the clock read by mark-as-seen.\<close>
definition addNode_test :: "time \<Rightarrow> hash_table \<Rightarrow> route_node \<Rightarrow> go_panic + (hash_table + nat)" where
  "addNode_test now ht n =
     (case GetBucketIndexFromDifferingBit (ID (Origin ht)) (ID (Node n)) of
        None \<Rightarrow> Inl UndefinedBucketIndex
      | Some index \<Rightarrow>
          if DoesNodeExistInBucket ht index (ID (Node n))
          then Inr (Inl (MarkNodeAsSeen now ht (ID (Node n))))
          else Inr (Inr index))"

text \<open>The second part runs under \<open>ht.Lock()\<close>, on the table as it is when the lock is
  taken, with the index of the first part: the insertion into the bucket, after a ping
  to the head when the bucket is full.\<close>
definition addNode_locked :: "transport \<Rightarrow> hash_table \<Rightarrow> nat \<Rightarrow> route_node \<Rightarrow> go_panic + hash_table \<times> transport" where
  "addNode_locked tr ht index n =
     (if \<not> index < length (RoutingTable ht) then Inl IndexOutOfRange
      else
        let bucket = RoutingTable ht ! index in
        if length bucket = MaxContactsInBucket then
          (case SendRequest tr (NewPingMessage (Origin ht) (Node (hd bucket))) of
             ((_, Some err), tr') \<Rightarrow>
               Inr (ht\<lparr>RoutingTable := (RoutingTable ht)[index := tl (bucket @ [n])]\<rparr>, tr')
           | ((None, None), tr') \<Rightarrow> Inl NilDereference
           | ((Some NoReply, None), tr') \<Rightarrow>
               Inr (ht\<lparr>RoutingTable := (RoutingTable ht)[index := tl bucket @ [n]]\<rparr>, tr')
           | ((Some _, None), tr') \<Rightarrow> Inr (ht, tr'))
        else Inr (ht\<lparr>RoutingTable := (RoutingTable ht)[index := bucket @ [n]]\<rparr>, tr))"

text \<open>A call of \<open>addNode\<close> that no other call runs beside: the table that the second
  part finds is the table that the first part tested. The result is the table and the
  transport afterwards, or the panic that ends the call.\<close>
definition addNode :: "transport \<Rightarrow> time \<Rightarrow> hash_table \<Rightarrow> route_node \<Rightarrow> go_panic + hash_table \<times> transport" where
  "addNode tr now ht n =
     (case addNode_test now ht n of
        Inl p \<Rightarrow> Inl p
      | Inr (Inl ht') \<Rightarrow> Inr (ht', tr)
      | Inr (Inr index) \<Rightarrow> addNode_locked tr ht index n)"

subsection \<open>Calls of addNode that run side by side\<close>

text \<open>dht.go calls \<open>addNode\<close> from goroutines that run side by side: one for every
  future of \<open>Bootstrap\<close> and of a round of \<open>iterate\<close>, besides the loop that handles
  the incoming messages. A call is before its test, or before the lock with the index
  it computed, or it has returned.\<close>
datatype addNode_call = BeforeTest route_node | BeforeLock nat route_node | Returned

text \<open>One step of one call: the part before the lock, or the part under the lock, which
  no other call can interrupt.\<close>
definition addNode_step ::
  "time \<Rightarrow> hash_table \<times> transport \<Rightarrow> addNode_call \<Rightarrow>
   go_panic + (hash_table \<times> transport) \<times> addNode_call" where
  "addNode_step now s c =
     (case s of
        (ht, tr) \<Rightarrow>
          (case c of
             BeforeTest n \<Rightarrow>
               (case addNode_test now ht n of
                  Inl p \<Rightarrow> Inl p
                | Inr (Inl ht') \<Rightarrow> Inr ((ht', tr), Returned)
                | Inr (Inr index) \<Rightarrow> Inr ((ht, tr), BeforeLock index n))
           | BeforeLock index n \<Rightarrow>
               (case addNode_locked tr ht index n of
                  Inl p \<Rightarrow> Inl p
                | Inr s' \<Rightarrow> Inr (s', Returned))
           | Returned \<Rightarrow> Inr (s, Returned)))"

text \<open>The calls \<open>cs\<close> on one routing table, under the schedule \<open>sched\<close>: the list of
  the calls that take the next step, in order. A panic in one call ends the program.\<close>
fun addNode_run ::
  "time \<Rightarrow> nat list \<Rightarrow> hash_table \<times> transport \<Rightarrow> addNode_call list \<Rightarrow>
   go_panic + (hash_table \<times> transport) \<times> addNode_call list" where
  "addNode_run now [] s cs = Inr (s, cs)"
| "addNode_run now (g # sched) s cs =
     (if \<not> g < length cs then addNode_run now sched s cs
      else
        case addNode_step now s (cs ! g) of
          Inl p \<Rightarrow> Inl p
        | Inr (s', c') \<Rightarrow> addNode_run now sched s' (cs[g := c']))"

section \<open>getExpirationTime\<close>

text \<open>\<open>int64(math.Exp(float64(q)))\<close> for the quotients \<open>q = MaxContactsInBucket / score\<close>
  of Go's integer division that can arise (\<open>1 \<le> score \<le> 20\<close>, so \<open>1 \<le> q \<le> 20\<close>):
  the exponential of the whole number \<open>q\<close>, truncated to a 64-bit integer.\<close>
definition int64_Exp :: "nat \<Rightarrow> 64 word" where
  "int64_Exp q =
     (if q < 21
      then [1, 2, 7, 20, 54, 148, 403, 1096, 2980, 8103, 22026, 59874, 162754, 442413,
            1202604, 3269017, 8886110, 24154952, 65659969, 178482300, 485165195] ! q
      else 0)"

text \<open>The body of \<open>getExpirationTime\<close> from \<open>if score == 0\<close> on: the deadline for a
  given density score. All arithmetic is that of \<open>int64\<close>; the quotient is the integer
  quotient of two \<open>int\<close>s.\<close>
definition expirationForScore :: "time \<Rightarrow> duration \<Rightarrow> nat \<Rightarrow> time" where
  "expirationForScore now expirationTime score0 =
     (let score = (if score0 = 0 then 1 else score0) in
      if score > MaxContactsInBucket then Add now expirationTime
      else
        let day = expirationTime;
            seconds = day * int64_Exp (MaxContactsInBucket div score);
            dur = Second * seconds
        in Add now dur)"

definition getExpirationTime :: "time \<Rightarrow> DHT \<Rightarrow> Context \<Rightarrow> bytes \<Rightarrow> go_panic + time" where
  "getExpirationTime now dht ctx key =
     (if \<not> ctx < length (tables dht) then Inl IndexOutOfRange
      else
        let ht = htFromCtx dht ctx in
        case GetBucketIndexFromDifferingBit key (ID (Origin ht)) of
          None \<Rightarrow> Inl UndefinedBucketIndex
        | Some bucket \<Rightarrow>
            if \<not> bucket < length (RoutingTable ht) then Inl IndexOutOfRange
            else
              let total = sum_list (map (GetTotalNodesInBucket ht) [0..<bucket]);
                  closer = GetAllNodesInBucketCloserThan ht bucket key;
                  score = total + length closer
              in Inr (expirationForScore now (ExpirationTime (options dht)) score))"

section \<open>iterate\<close>

text \<open>The model runs one call at a time. Where dht.go starts a goroutine for each future
  of a round, the goroutines are taken one after the other in the order in which the
  requests were sent, and a response that arrives does so before the timer of the
  loop that collects the results. The clock is read once, as \<open>now\<close>.\<close>

datatype IterateType = IterateStore | IterateBootstrap | IterateFindNode | IterateFindValue

text \<open>The three values \<open>iterate\<close> returns: value, closest, err.\<close>
type_synonym iterate_result = "slice \<times> node list \<times> string option"

text \<open>The request built for one receiver of a round.\<close>
definition iterate_request :: "IterateType \<Rightarrow> node \<Rightarrow> node \<Rightarrow> id \<Rightarrow> message" where
  "iterate_request t origin receiver target =
     \<lparr>Sender = origin, Receiver = receiver,
      Type = (case t of IterateFindValue \<Rightarrow> TypeFindValue | _ \<Rightarrow> TypeFindNode),
      RequestID = [],
      Data = (case t of IterateFindValue \<Rightarrow> RequestDataFindValue target
                      | _ \<Rightarrow> RequestDataFindNode target),
      Error = None, IsResponse = False\<rparr>"

text \<open>The variables of the loop of \<open>iterate\<close>.\<close>
record iterate_state =
  routeSet :: route_set
  contacted :: "id list"
  queryRest :: bool
  closestNode :: node
  removeFromRouteSet :: "node list"
  table :: hash_table
  net :: transport

text \<open>The first inner loop: requests to the nodes of the route-set that were not
  contacted yet, to the first \<open>ParallelCalls\<close> of them unless \<open>queryRest\<close>. It gives
  the contacted identifiers, the nodes to remove, the futures with their requests,
  and the transport.\<close>
fun send_queries ::
  "IterateType \<Rightarrow> node \<Rightarrow> id \<Rightarrow> bool \<Rightarrow> nat \<Rightarrow> node list \<Rightarrow>
   id list \<times> node list \<times> (message \<times> future option) list \<times> transport \<Rightarrow>
   id list \<times> node list \<times> (message \<times> future option) list \<times> transport" where
  "send_queries t origin target qr i [] acc = acc"
| "send_queries t origin target qr i (receiver # rest) (cont, rem, futures, tr) =
     (if i \<ge> ParallelCalls \<and> \<not> qr then (cont, rem, futures, tr)
      else if ID receiver \<in> set cont
      then send_queries t origin target qr (Suc i) rest (cont, rem, futures, tr)
      else
        let msg = iterate_request t origin receiver target in
        case SendRequest tr msg of
          ((res, Some err), tr') \<Rightarrow>
            send_queries t origin target qr (Suc i) rest
              (ID receiver # cont, rem @ [Receiver msg], futures, tr')
        | ((res, None), tr') \<Rightarrow>
            send_queries t origin target qr (Suc i) rest
              (ID receiver # cont, rem, futures @ [(msg, res)], tr'))"

text \<open>The goroutines that wait for the futures, taken one after the other in the order
  of the requests: a response adds its sender to the routing table and is handed on,
  a closed channel is dropped, and a future without response is cancelled.\<close>
fun await_futures ::
  "time \<Rightarrow> (message \<times> future option) list \<Rightarrow> hash_table \<times> transport \<Rightarrow>
   go_panic + (message list \<times> hash_table \<times> transport)" where
  "await_futures now [] (ht, tr) = Inr ([], ht, tr)"
| "await_futures now ((msg, None) # fs) (ht, tr) = Inl NilDereference"
| "await_futures now ((msg, Some (Reply result)) # fs) (ht, tr) =
     (case addNode tr now ht (NewRouteNode (Sender result)) of
        Inl p \<Rightarrow> Inl p
      | Inr (ht', tr') \<Rightarrow>
          (case await_futures now fs (ht', tr') of
             Inl p \<Rightarrow> Inl p
           | Inr (results, ht'', tr'') \<Rightarrow> Inr (result # results, ht'', tr'')))"
| "await_futures now ((msg, Some Closed) # fs) (ht, tr) = await_futures now fs (ht, tr)"
| "await_futures now ((msg, Some NoReply) # fs) (ht, tr) = await_futures now fs (ht, Cancel tr msg)"

text \<open>The loop over the results of a round: either \<open>iterate\<close> returns from inside it
  (\<open>Inl\<close>: value and closest), or the route-set goes on to the next step (\<open>Inr\<close>).\<close>
fun process_results ::
  "IterateType \<Rightarrow> id \<Rightarrow> message list \<Rightarrow> route_set \<Rightarrow> go_panic + ((slice \<times> node list) + route_set)" where
  "process_results t target [] rs = Inr (Inr rs)"
| "process_results t target (result # rest) rs =
     (if Error result \<noteq> None then process_results t target rest (Remove rs (Sender result))
      else if t = IterateFindValue then
        (case Data result of
           ResponseDataFindValue closest val \<Rightarrow>
             let rs' = Extend target rs closest in
             if val \<noteq> None then Inr (Inl (val, []))
             else process_results t target rest rs'
         | _ \<Rightarrow> Inl TypeAssertionFailed)
      else
        (case Data result of
           ResponseDataFindNode closest \<Rightarrow>
             if length closest > 0 \<and> ID (hd closest) = target then Inr (Inl (None, closest))
             else process_results t target rest (Extend target rs closest)
         | _ \<Rightarrow> Inl TypeAssertionFailed))"

text \<open>The Store request sent to one receiver at the end of an iterative store.\<close>
definition store_request :: "node \<Rightarrow> node \<Rightarrow> bytes \<Rightarrow> message" where
  "store_request origin receiver data =
     \<lparr>Sender = origin, Receiver = receiver, Type = TypeStore, RequestID = [],
      Data = RequestDataStore data, Error = None, IsResponse = False\<rparr>"

text \<open>The final loop of an iterative store: a Store request to each of the first
  \<open>MaxContactsInBucket\<close> nodes of the route-set; the error of \<open>SendRequest\<close> is
  discarded and \<open>Cancel\<close> is called on the future it returned.\<close>
fun store_fanout :: "node \<Rightarrow> bytes \<Rightarrow> nat \<Rightarrow> node list \<Rightarrow> transport \<Rightarrow> go_panic + transport" where
  "store_fanout origin data i [] tr = Inr tr"
| "store_fanout origin data i (receiver # rest) tr =
     (if i \<ge> MaxContactsInBucket then Inr tr
      else
        let msg = store_request origin receiver data in
        case SendRequest tr msg of
          ((None, _), tr') \<Rightarrow> Inl NilDereference
        | ((Some future, _), tr') \<Rightarrow> store_fanout origin data (Suc i) rest (Cancel tr' msg))"

text \<open>One pass through the body of the outer loop of \<open>iterate\<close>: it returns from
  \<open>iterate\<close> (\<open>Inl\<close>) or goes round again with new loop variables (\<open>Inr\<close>).\<close>
definition iterate_round ::
  "time \<Rightarrow> IterateType \<Rightarrow> id \<Rightarrow> bytes \<Rightarrow> iterate_state \<Rightarrow>
   go_panic + ((iterate_result \<times> hash_table \<times> transport) + iterate_state)" where
  "iterate_round now t target data s =
     (case send_queries t (Origin (table s)) target (queryRest s) 0 (routeSet s)
             (contacted s, removeFromRouteSet s, [], net s) of
        (cont, rem, futures, tr1) \<Rightarrow>
          let rs1 = foldl Remove (routeSet s) rem in
          (case await_futures now futures (table s, tr1) of
             Inl p \<Rightarrow> Inl p
           | Inr (results, ht, tr2) \<Rightarrow>
               (case (if length futures > 0 then process_results t target results rs1
                      else Inr (Inr rs1)) of
                  Inl p \<Rightarrow> Inl p
                | Inr (Inl (val, closest)) \<Rightarrow> Inr (Inl ((val, closest, None), ht, tr2))
                | Inr (Inr rs2) \<Rightarrow>
                    if \<not> queryRest s \<and> length rs2 = 0 then Inr (Inl ((None, [], None), ht, tr2))
                    else
                      (case sort_route_set target rs2 of
                         [] \<Rightarrow> Inl IndexOutOfRange
                       | first # others \<Rightarrow>
                           let rs3 = first # others;
                               s' = s\<lparr>routeSet := rs3, contacted := cont,
                                      removeFromRouteSet := rem, table := ht, net := tr2\<rparr>
                           in
                           if ID first = ID (closestNode s) \<or> queryRest s then
                             (case t of
                                IterateBootstrap \<Rightarrow>
                                  if \<not> queryRest s then Inr (Inr (s'\<lparr>queryRest := True\<rparr>))
                                  else Inr (Inl ((None, rs3, None), ht, tr2))
                              | IterateFindNode \<Rightarrow> Inr (Inl ((None, rs3, None), ht, tr2))
                              | IterateFindValue \<Rightarrow> Inr (Inl ((None, rs3, None), ht, tr2))
                              | IterateStore \<Rightarrow>
                                  (case store_fanout (Origin ht) data 0 rs3 tr2 of
                                     Inl p \<Rightarrow> Inl p
                                   | Inr tr3 \<Rightarrow> Inr (Inl ((None, [], None), ht, tr3))))
                           else Inr (Inr (s'\<lparr>closestNode := first\<rparr>))))))"

text \<open>The outer loop of \<open>iterate\<close>, one round for each unit of fuel; \<open>None\<close> when the
  fuel runs out before the loop returns.\<close>
fun iterate_loop ::
  "nat \<Rightarrow> time \<Rightarrow> IterateType \<Rightarrow> id \<Rightarrow> bytes \<Rightarrow> iterate_state \<Rightarrow>
   (go_panic + iterate_result \<times> hash_table \<times> transport) option" where
  "iterate_loop 0 now t target data s = None"
| "iterate_loop (Suc fuel) now t target data s =
     (case iterate_round now t target data s of
        Inl p \<Rightarrow> Some (Inl p)
      | Inr (Inl r) \<Rightarrow> Some (Inr r)
      | Inr (Inr s') \<Rightarrow> iterate_loop fuel now t target data s')"

text \<open>\<open>iterate\<close> of dht.go on the table the context selects.\<close>
definition iterate ::
  "nat \<Rightarrow> transport \<Rightarrow> time \<Rightarrow> hash_table \<Rightarrow> IterateType \<Rightarrow> id \<Rightarrow> bytes \<Rightarrow>
   (go_panic + iterate_result \<times> hash_table \<times> transport) option" where
  "iterate fuel tr now ht t target data =
     (let rs = GetClosestContacts ht ParallelCalls target [] in
      case rs of
        [] \<Rightarrow> Some (Inr ((None, [], None), ht, tr))
      | first # others \<Rightarrow>
          (case (if t = IterateBootstrap
                 then (case GetBucketIndexFromDifferingBit target (ID (Origin ht)) of
                         None \<Rightarrow> Inl UndefinedBucketIndex
                       | Some bucket \<Rightarrow> Inr (ResetRefreshTimeForBucket now ht bucket))
                 else Inr ht) of
             Inl p \<Rightarrow> Some (Inl p)
           | Inr ht1 \<Rightarrow>
               iterate_loop fuel now t target data
                 \<lparr>routeSet = rs, contacted = [], queryRest = False, closestNode = first,
                  removeFromRouteSet = [], table = ht1, net = tr\<rparr>))"

subsection \<open>What a run adds to the record of the transport\<close>

text \<open>The transport \<open>tr'\<close> is \<open>tr\<close> after more calls: the network is the same, and the
  calls recorded by \<open>tr\<close> are followed by the later ones.\<close>
definition extends_calls :: "transport \<Rightarrow> transport \<Rightarrow> bool" where
  "extends_calls tr tr' \<longleftrightarrow> respond tr' = respond tr \<and> (\<exists>evs. calls tr' = calls tr @ evs)"

text \<open>The transport that a pass through the loop of \<open>iterate\<close> leaves.\<close>
definition round_transport :: "(iterate_result \<times> hash_table \<times> transport) + iterate_state \<Rightarrow> transport" where
  "round_transport r = (case r of Inl (res, ht, tr) \<Rightarrow> tr | Inr s \<Rightarrow> net s)"

section \<open>The operations of the DHT\<close>

text \<open>What dht.go takes from outside the repository's routing, store and transport:
  the base58 codec and the content hash that makes a key.\<close>
record externals =
  base58_Encode :: "bytes \<Rightarrow> string"
  base58_Decode :: "string \<Rightarrow> bytes"
  NewKey :: "bytes \<Rightarrow> bytes"

text \<open>\<open>addNode\<close> and \<open>iterate\<close> as methods of the DHT: on the table of the context.\<close>
definition dht_addNode :: "transport \<Rightarrow> time \<Rightarrow> DHT \<Rightarrow> Context \<Rightarrow> route_node \<Rightarrow> go_panic + DHT \<times> transport" where
  "dht_addNode tr now dht ctx n =
     (if \<not> ctx < length (tables dht) then Inl IndexOutOfRange
      else case addNode tr now (htFromCtx dht ctx) n of
             Inl p \<Rightarrow> Inl p
           | Inr (ht, tr') \<Rightarrow> Inr (set_table dht ctx ht, tr'))"

definition dht_iterate ::
  "nat \<Rightarrow> transport \<Rightarrow> time \<Rightarrow> DHT \<Rightarrow> Context \<Rightarrow> IterateType \<Rightarrow> id \<Rightarrow> bytes \<Rightarrow>
   (go_panic + iterate_result \<times> DHT \<times> transport) option" where
  "dht_iterate fuel tr now dht ctx t target data =
     (if \<not> ctx < length (tables dht) then Some (Inl IndexOutOfRange)
      else case iterate fuel tr now (htFromCtx dht ctx) t target data of
             None \<Rightarrow> None
           | Some (Inl p) \<Rightarrow> Some (Inl p)
           | Some (Inr (r, ht, tr')) \<Rightarrow> Some (Inr (r, set_table dht ctx ht, tr')))"

text \<open>\<open>Store\<close>: the identifier and the error it returns, with the DHT and the transport
  afterwards.\<close>
definition Store ::
  "externals \<Rightarrow> nat \<Rightarrow> transport \<Rightarrow> time \<Rightarrow> DHT \<Rightarrow> Context \<Rightarrow> bytes \<Rightarrow>
   (go_panic + (string \<times> string option) \<times> DHT \<times> transport) option" where
  "Store ext fuel tr now dht ctx data =
     (let key = NewKey ext data in
      case getExpirationTime now dht ctx key of
        Inl p \<Rightarrow> Some (Inl p)
      | Inr expiration \<Rightarrow>
          let replication = Add now (ReplicateTime (options dht)) in
          (case store_Store (store dht) key data replication expiration True of
             (st, Some err) \<Rightarrow> Some (Inr (([], Some err), dht\<lparr>store := st\<rparr>, tr))
           | (st, None) \<Rightarrow>
               (case dht_iterate fuel tr now (dht\<lparr>store := st\<rparr>) ctx IterateStore key data of
                  None \<Rightarrow> None
                | Some (Inl p) \<Rightarrow> Some (Inl p)
                | Some (Inr ((_, _, Some err), dht', tr')) \<Rightarrow> Some (Inr (([], Some err), dht', tr'))
                | Some (Inr ((_, _, None), dht', tr')) \<Rightarrow>
                    Some (Inr ((base58_Encode ext key, None), dht', tr')))))"

text \<open>\<open>Get\<close>: value, exists and error. The value is nil when the key is refused and
  when the iteration finds none; \<open>exists\<close> after an iteration is \<open>value != nil\<close>.\<close>
definition Get ::
  "externals \<Rightarrow> nat \<Rightarrow> transport \<Rightarrow> time \<Rightarrow> DHT \<Rightarrow> Context \<Rightarrow> string \<Rightarrow>
   (go_panic + (slice \<times> bool \<times> string option) \<times> DHT \<times> transport) option" where
  "Get ext fuel tr now dht ctx key =
     (let keyBytes = base58_Decode ext key in
      if length keyBytes \<noteq> MaxContactsInBucket
      then Some (Inr ((None, False, Some ''invalid key''), dht, tr))
      else
        case Retrieve (store dht) keyBytes of
          (val, True) \<Rightarrow> Some (Inr ((val, True, None), dht, tr))
        | (val, False) \<Rightarrow>
            (case dht_iterate fuel tr now dht ctx IterateFindValue keyBytes [] of
               None \<Rightarrow> None
             | Some (Inl p) \<Rightarrow> Some (Inl p)
             | Some (Inr ((_, _, Some err), dht', tr')) \<Rightarrow> Some (Inr ((None, False, Some err), dht', tr'))
             | Some (Inr ((val', _, None), dht', tr')) \<Rightarrow>
                 Some (Inr ((val', val' \<noteq> None, None), dht', tr'))))"

text \<open>The else-branch of \<open>FindNode\<close>: the target is not in the routing table, and the
  network is searched for it.\<close>
definition find_by_iteration ::
  "nat \<Rightarrow> transport \<Rightarrow> time \<Rightarrow> DHT \<Rightarrow> Context \<Rightarrow> bytes \<Rightarrow>
   (go_panic + (node option \<times> bool \<times> string option) \<times> DHT \<times> transport) option" where
  "find_by_iteration fuel tr now dht ctx keyBytes =
     (case dht_iterate fuel tr now dht ctx IterateFindNode keyBytes [] of
        None \<Rightarrow> None
      | Some (Inl p) \<Rightarrow> Some (Inl p)
      | Some (Inr ((_, _, Some err), dht', tr')) \<Rightarrow> Some (Inr ((None, False, Some err), dht', tr'))
      | Some (Inr ((_, closest, None), dht', tr')) \<Rightarrow>
          (case closest of
             c # cs \<Rightarrow>
               if ID c = keyBytes then Some (Inr ((Some c, True, None), dht', tr'))
               else Some (Inr ((None, False, None), dht', tr'))
           | [] \<Rightarrow> Some (Inr ((None, False, None), dht', tr'))))"

text \<open>\<open>FindNode\<close>: the node (if any), exists and error.\<close>
definition FindNode ::
  "externals \<Rightarrow> nat \<Rightarrow> transport \<Rightarrow> time \<Rightarrow> DHT \<Rightarrow> Context \<Rightarrow> string \<Rightarrow>
   (go_panic + (node option \<times> bool \<times> string option) \<times> DHT \<times> transport) option" where
  "FindNode ext fuel tr now dht ctx key =
     (let keyBytes = base58_Decode ext key in
      if length keyBytes \<noteq> MaxContactsInBucket
      then Some (Inr ((None, False, Some ''invalid key''), dht, tr))
      else if \<not> ctx < length (tables dht) then Some (Inl IndexOutOfRange)
      else
        let ht = htFromCtx dht ctx in
        if ID (Origin ht) = keyBytes then Some (Inr ((Some (Origin ht), True, None), dht, tr))
        else
          (case GetClosestContacts ht 1 keyBytes [] of
             first # others \<Rightarrow>
               if ID first = keyBytes then Some (Inr ((Some first, True, None), dht, tr))
               else find_by_iteration fuel tr now dht ctx keyBytes
           | [] \<Rightarrow> find_by_iteration fuel tr now dht ctx keyBytes))"

text \<open>\<open>NumNodes\<close> and \<open>GetOriginID\<close> (the base58 form of the local identifier).\<close>
definition NumNodes :: "DHT \<Rightarrow> Context \<Rightarrow> nat" where
  "NumNodes dht ctx = TotalNodes (htFromCtx dht ctx)"

definition GetOriginID :: "externals \<Rightarrow> DHT \<Rightarrow> Context \<Rightarrow> string" where
  "GetOriginID ext dht ctx = base58_Encode ext (ID (Origin (htFromCtx dht ctx)))"

section \<open>Remote procedure calls\<close>

definition rpc_request :: "node \<Rightarrow> node \<Rightarrow> string \<Rightarrow> bytes list \<Rightarrow> message" where
  "rpc_request origin targetNode method args =
     \<lparr>Sender = origin, Receiver = targetNode, Type = TypeRPC, RequestID = [],
      Data = RequestDataRPC method args, Error = None, IsResponse = False\<rparr>"

text \<open>The part of \<open>RemoteProcedureCall\<close> after the target node was found.\<close>
definition call_found_node ::
  "externals \<Rightarrow> transport \<Rightarrow> time \<Rightarrow> DHT \<Rightarrow> Context \<Rightarrow> string \<Rightarrow> node \<Rightarrow> string \<Rightarrow> bytes list \<Rightarrow>
   go_panic + (bytes \<times> string option) \<times> DHT \<times> transport" where
  "call_found_node ext tr now dht ctx target targetNode method args =
     (if \<not> ctx < length (tables dht) then Inl IndexOutOfRange
      else
        let ht = htFromCtx dht ctx;
            request = rpc_request (Origin ht) targetNode method args
        in
        if target = GetOriginID ext dht ctx
        then Inr (rpc dht (Sender request) method args, dht, tr)
        else
          case SendRequest tr request of
            ((_, Some err), tr') \<Rightarrow> Inr (([], Some err), dht, tr')
          | ((None, None), tr') \<Rightarrow> Inl NilDereference
          | ((Some Closed, None), tr') \<Rightarrow>
              Inr (([], Some ''chanel closed unexpectedly''), dht, tr')
          | ((Some (Reply rsp), None), tr') \<Rightarrow>
              (case dht_addNode tr' now dht ctx (NewRouteNode (Sender rsp)) of
                 Inl p \<Rightarrow> Inl p
               | Inr (dht', tr'') \<Rightarrow>
                   (case Data rsp of
                      ResponseDataRPC success result err \<Rightarrow>
                        if success then Inr ((result, None), dht', tr'')
                        else Inr (([], Some err), dht', tr'')
                    | _ \<Rightarrow> Inl TypeAssertionFailed))
          | ((Some NoReply, None), tr') \<Rightarrow>
              Inr (([], Some ''timeout''), dht, Cancel tr' request))"

text \<open>\<open>RemoteProcedureCall\<close>: result and error.\<close>
definition RemoteProcedureCall ::
  "externals \<Rightarrow> nat \<Rightarrow> transport \<Rightarrow> time \<Rightarrow> DHT \<Rightarrow> Context \<Rightarrow> string \<Rightarrow> string \<Rightarrow> bytes list \<Rightarrow>
   (go_panic + (bytes \<times> string option) \<times> DHT \<times> transport) option" where
  "RemoteProcedureCall ext fuel tr now dht ctx target method args =
     (case FindNode ext fuel tr now dht ctx target of
        None \<Rightarrow> None
      | Some (Inl p) \<Rightarrow> Some (Inl p)
      | Some (Inr ((targetNode, exists, Some err), dht', tr')) \<Rightarrow>
          if \<not> ctx < length (tables dht') then Some (Inl IndexOutOfRange)
          else Some (Inr (([], Some err), dht', tr'))
      | Some (Inr ((targetNode, exists, None), dht', tr')) \<Rightarrow>
          if \<not> ctx < length (tables dht') then Some (Inl IndexOutOfRange)
          else if \<not> exists then Some (Inr (([], Some ''targetNode not found''), dht', tr'))
          else
            (case targetNode of
               None \<Rightarrow> Some (Inl NilDereference)
             | Some n \<Rightarrow> Some (call_found_node ext tr' now dht' ctx target n method args)))"

section \<open>The message handlers\<close>

text \<open>The response a handler builds: from the table's origin to the sender of the
  request, of the type of the request.\<close>
definition response_message :: "node \<Rightarrow> message \<Rightarrow> payload \<Rightarrow> message" where
  "response_message origin msg data =
     \<lparr>Sender = origin, Receiver = Sender msg, Type = Type msg, RequestID = [],
      Data = data, Error = None, IsResponse = True\<rparr>"

definition processFindNode :: "transport \<Rightarrow> time \<Rightarrow> DHT \<Rightarrow> Context \<Rightarrow> message \<Rightarrow> go_panic + DHT \<times> transport" where
  "processFindNode tr now dht ctx msg =
     (case Data msg of
        RequestDataFindNode target \<Rightarrow>
          (case dht_addNode tr now dht ctx (NewRouteNode (Sender msg)) of
             Inl p \<Rightarrow> Inl p
           | Inr (dht', tr') \<Rightarrow>
               let ht = htFromCtx dht' ctx;
                   closest = GetClosestContacts ht MaxContactsInBucket target [Sender msg];
                   response = ResponseDataFindNode closest
               in Inr (dht', SendResponse tr' (RequestID msg) (response_message (Origin ht) msg response)))
      | _ \<Rightarrow> Inl TypeAssertionFailed)"

definition processFindValue :: "transport \<Rightarrow> time \<Rightarrow> DHT \<Rightarrow> Context \<Rightarrow> message \<Rightarrow> go_panic + DHT \<times> transport" where
  "processFindValue tr now dht ctx msg =
     (case Data msg of
        RequestDataFindValue target \<Rightarrow>
          (case dht_addNode tr now dht ctx (NewRouteNode (Sender msg)) of
             Inl p \<Rightarrow> Inl p
           | Inr (dht', tr') \<Rightarrow>
               let ht = htFromCtx dht' ctx;
                   response =
                     (case Retrieve (store dht') target of
                        (val, True) \<Rightarrow> ResponseDataFindValue [] val
                      | (val, False) \<Rightarrow>
                          ResponseDataFindValue
                            (GetClosestContacts ht MaxContactsInBucket target [Sender msg]) None)
               in Inr (dht', SendResponse tr' (RequestID msg) (response_message (Origin ht) msg response)))
      | _ \<Rightarrow> Inl TypeAssertionFailed)"

definition processStore :: "externals \<Rightarrow> transport \<Rightarrow> time \<Rightarrow> DHT \<Rightarrow> Context \<Rightarrow> message \<Rightarrow> go_panic + DHT \<times> transport" where
  "processStore ext tr now dht ctx msg =
     (case Data msg of
        RequestDataStore data \<Rightarrow>
          (case dht_addNode tr now dht ctx (NewRouteNode (Sender msg)) of
             Inl p \<Rightarrow> Inl p
           | Inr (dht', tr') \<Rightarrow>
               let key = NewKey ext data in
               (case getExpirationTime now dht' ctx key of
                  Inl p \<Rightarrow> Inl p
                | Inr expiration \<Rightarrow>
                    let replication = Add now (ReplicateTime (options dht'));
                        (st, err) = store_Store (store dht') key data replication expiration False
                    in Inr (dht'\<lparr>store := st\<rparr>, tr')))
      | _ \<Rightarrow> Inl TypeAssertionFailed)"

definition processPing :: "transport \<Rightarrow> time \<Rightarrow> DHT \<Rightarrow> Context \<Rightarrow> message \<Rightarrow> go_panic + DHT \<times> transport" where
  "processPing tr now dht ctx msg =
     (if \<not> ctx < length (tables dht) then Inl IndexOutOfRange
      else Inr (dht, SendResponse tr (RequestID msg)
                  (response_message (Origin (htFromCtx dht ctx)) msg NoData)))"

definition processRPC :: "transport \<Rightarrow> time \<Rightarrow> DHT \<Rightarrow> Context \<Rightarrow> message \<Rightarrow> go_panic + DHT \<times> transport" where
  "processRPC tr now dht ctx msg =
     (case Data msg of
        RequestDataRPC method args \<Rightarrow>
          (case dht_addNode tr now dht ctx (NewRouteNode (Sender msg)) of
             Inl p \<Rightarrow> Inl p
           | Inr (dht', tr') \<Rightarrow>
               let response =
                     (case rpc dht' (Sender msg) method args of
                        (result, None) \<Rightarrow> ResponseDataRPC True result []
                      | (result, Some err) \<Rightarrow> ResponseDataRPC False result err)
               in Inr (dht', SendResponse tr' (RequestID msg)
                         (response_message (Origin (htFromCtx dht' ctx)) msg response)))
      | _ \<Rightarrow> Inl TypeAssertionFailed)"

text \<open>The \<open>switch\<close> of \<open>handleMessages\<close> on the type of an inbound message, once the
  context is built.\<close>
definition dispatch :: "externals \<Rightarrow> transport \<Rightarrow> time \<Rightarrow> DHT \<Rightarrow> Context \<Rightarrow> message \<Rightarrow> go_panic + DHT \<times> transport" where
  "dispatch ext tr now dht ctx msg =
     (if \<not> ctx < length (tables dht) then Inl IndexOutOfRange
      else case Type msg of
             TypeFindNode \<Rightarrow> processFindNode tr now dht ctx msg
           | TypeFindValue \<Rightarrow> processFindValue tr now dht ctx msg
           | TypeStore \<Rightarrow> processStore ext tr now dht ctx msg
           | TypePing \<Rightarrow> processPing tr now dht ctx msg
           | TypeRPC \<Rightarrow> processRPC tr now dht ctx msg)"

section \<open>Bootstrap\<close>

text \<open>Modelled from the spec: the index of the first routing table whose origin has the
  given identifier, counting from \<open>i\<close>.\<close>
fun table_index :: "id \<Rightarrow> nat \<Rightarrow> hash_table list \<Rightarrow> Context option" where
  "table_index nid i [] = None"
| "table_index nid i (ht # hts) = (if ID (Origin ht) = nid then Some i else table_index nid (Suc i) hts)"

text \<open>Modelled from the spec: the context builder (context.go is not part of the
  sources at hand) binds the context to the identity with the given identifier, and
  building fails when the node has no such identity.\<close>
definition SetNodeByID :: "DHT \<Rightarrow> id \<Rightarrow> Context option" where
  "SetNodeByID dht nid = table_index nid 0 (tables dht)"

text \<open>The loop over the bootstrap nodes, for one routing table: a node without
  identifier is pinged and its future kept, a node with identifier is added.\<close>
fun bootstrap_nodes ::
  "time \<Rightarrow> node \<Rightarrow> Context \<Rightarrow> node list \<Rightarrow>
   DHT \<times> transport \<times> (message \<times> future option) list \<Rightarrow>
   go_panic + DHT \<times> transport \<times> (message \<times> future option) list" where
  "bootstrap_nodes now origin ctx [] acc = Inr acc"
| "bootstrap_nodes now origin ctx (bn # bns) (dht, tr, futures) =
     (let request = NewPingMessage origin bn in
      if ID bn = [] then
        (case SendRequest tr request of
           ((res, Some err), tr') \<Rightarrow> bootstrap_nodes now origin ctx bns (dht, tr', futures)
         | ((res, None), tr') \<Rightarrow>
             bootstrap_nodes now origin ctx bns (dht, tr', futures @ [(request, res)]))
      else
        (case dht_addNode tr now dht ctx (NewRouteNode bn) of
           Inl p \<Rightarrow> Inl p
         | Inr (dht', tr') \<Rightarrow> bootstrap_nodes now origin ctx bns (dht', tr', futures)))"

text \<open>The first loop of \<open>Bootstrap\<close>, over the routing tables (by index); \<open>Inl\<close> is
  the error of a context that cannot be built, with which \<open>Bootstrap\<close> returns.\<close>
fun bootstrap_tables ::
  "time \<Rightarrow> nat list \<Rightarrow> DHT \<times> transport \<times> (message \<times> future option) list \<Rightarrow>
   go_panic + (string \<times> DHT \<times> transport + DHT \<times> transport \<times> (message \<times> future option) list)" where
  "bootstrap_tables now [] acc = Inr (Inr acc)"
| "bootstrap_tables now (k # ks) (dht, tr, futures) =
     (let ht = tables dht ! k in
      case SetNodeByID dht (ID (Origin ht)) of
        None \<Rightarrow> Inr (Inl (''node not found'', dht, tr))
      | Some ctx \<Rightarrow>
          (case bootstrap_nodes now (Origin ht) ctx (BootstrapNodes (options dht)) (dht, tr, futures) of
             Inl p \<Rightarrow> Inl p
           | Inr acc \<Rightarrow> bootstrap_tables now ks acc))"

text \<open>The goroutines that wait for the pings, taken in the order of the requests.\<close>
fun bootstrap_await ::
  "time \<Rightarrow> (message \<times> future option) list \<Rightarrow> DHT \<times> transport \<Rightarrow> go_panic + DHT \<times> transport" where
  "bootstrap_await now [] acc = Inr acc"
| "bootstrap_await now ((request, None) # fs) (dht, tr) = Inl NilDereference"
| "bootstrap_await now ((request, Some (Reply result)) # fs) (dht, tr) =
     (case SetNodeByID dht (ID (Receiver result)) of
        None \<Rightarrow> Inl (FatalError ''node not found'')
      | Some ctx \<Rightarrow>
          (case dht_addNode tr now dht ctx (NewRouteNode (Sender result)) of
             Inl p \<Rightarrow> Inl p
           | Inr acc \<Rightarrow> bootstrap_await now fs acc))"
| "bootstrap_await now ((request, Some Closed) # fs) (dht, tr) = bootstrap_await now fs (dht, tr)"
| "bootstrap_await now ((request, Some NoReply) # fs) (dht, tr) =
     bootstrap_await now fs (dht, Cancel tr request)"

text \<open>The last loop of \<open>Bootstrap\<close>: an iterative bootstrap for the first identity that
  knows a node.\<close>
fun bootstrap_iterate ::
  "nat \<Rightarrow> time \<Rightarrow> nat list \<Rightarrow> DHT \<times> transport \<Rightarrow>
   (go_panic + string option \<times> DHT \<times> transport) option" where
  "bootstrap_iterate fuel now [] (dht, tr) = Some (Inr (None, dht, tr))"
| "bootstrap_iterate fuel now (k # ks) (dht, tr) =
     (let ht = tables dht ! k in
      case SetNodeByID dht (ID (Origin ht)) of
        None \<Rightarrow> Some (Inr (Some ''node not found'', dht, tr))
      | Some ctx \<Rightarrow>
          if NumNodes dht ctx > 0 then
            (case dht_iterate fuel tr now dht ctx IterateBootstrap (ID (Origin ht)) [] of
               None \<Rightarrow> None
             | Some (Inl p) \<Rightarrow> Some (Inl p)
             | Some (Inr ((_, _, err), dht', tr')) \<Rightarrow> Some (Inr (err, dht', tr')))
          else bootstrap_iterate fuel now ks (dht, tr))"

text \<open>\<open>Bootstrap\<close>: the error it returns, with the DHT and the transport afterwards.\<close>
definition Bootstrap ::
  "nat \<Rightarrow> transport \<Rightarrow> time \<Rightarrow> DHT \<Rightarrow> (go_panic + string option \<times> DHT \<times> transport) option" where
  "Bootstrap fuel tr now dht =
     (if length (BootstrapNodes (options dht)) = 0 then Some (Inr (None, dht, tr))
      else
        case bootstrap_tables now [0..<length (tables dht)] (dht, tr, []) of
          Inl p \<Rightarrow> Some (Inl p)
        | Inr (Inl (err, dht1, tr1)) \<Rightarrow> Some (Inr (Some err, dht1, tr1))
        | Inr (Inr (dht1, tr1, futures)) \<Rightarrow>
            (case bootstrap_await now futures (dht1, tr1) of
               Inl p \<Rightarrow> Some (Inl p)
             | Inr (dht2, tr2) \<Rightarrow>
                 bootstrap_iterate fuel now [0..<length (tables dht2)] (dht2, tr2)))"

section \<open>The timers\<close>

text \<open>The body of the refresh loop of \<open>handleStoreTimers\<close> for bucket \<open>i\<close> of table
  \<open>k\<close>; \<open>rnd\<close> are the random bytes drawn for the identifier. An error of \<open>iterate\<close>
  is skipped over.\<close>
definition refresh_bucket ::
  "nat \<Rightarrow> time \<Rightarrow> bytes \<Rightarrow> nat \<Rightarrow> Context \<Rightarrow> nat \<Rightarrow> DHT \<times> transport \<Rightarrow>
   (go_panic + DHT \<times> transport) option" where
  "refresh_bucket fuel now rnd k ctx i acc =
     (case acc of
        (dht, tr) \<Rightarrow>
          let ht = tables dht ! k in
          if now - GetRefreshTimeForBucket ht i > sint (RefreshTime (options dht)) then
            (let ident = GetRandomIDFromBucket rnd ht MaxContactsInBucket in
             case dht_iterate fuel tr now dht ctx IterateBootstrap ident [] of
               None \<Rightarrow> None
             | Some (Inl p) \<Rightarrow> Some (Inl p)
             | Some (Inr (_, dht', tr')) \<Rightarrow> Some (Inr (dht', tr')))
          else Some (Inr (dht, tr)))"

text \<open>The refresh loop: the buckets \<open>is\<close> in turn; \<open>rnd i\<close> are the random bytes of
  the draw for bucket \<open>i\<close>.\<close>
fun refresh_buckets ::
  "nat \<Rightarrow> time \<Rightarrow> (nat \<Rightarrow> bytes) \<Rightarrow> nat \<Rightarrow> Context \<Rightarrow> nat list \<Rightarrow> DHT \<times> transport \<Rightarrow>
   (go_panic + DHT \<times> transport) option" where
  "refresh_buckets fuel now rnd k ctx [] acc = Some (Inr acc)"
| "refresh_buckets fuel now rnd k ctx (i # is) acc =
     (case refresh_bucket fuel now (rnd i) k ctx i acc of
        None \<Rightarrow> None
      | Some (Inl p) \<Rightarrow> Some (Inl p)
      | Some (Inr acc') \<Rightarrow> refresh_buckets fuel now rnd k ctx is acc')"

text \<open>The replication loop: an iterative store for every key that is ready. The data
  of the Store requests are the bytes of the value retrieved (none for a nil slice).\<close>
fun replicate_keys ::
  "nat \<Rightarrow> time \<Rightarrow> Context \<Rightarrow> bytes list \<Rightarrow> DHT \<times> transport \<Rightarrow>
   (go_panic + DHT \<times> transport) option" where
  "replicate_keys fuel now ctx [] acc = Some (Inr acc)"
| "replicate_keys fuel now ctx (key # keys) (dht, tr) =
     (case dht_iterate fuel tr now dht ctx IterateStore key
             (case fst (Retrieve (store dht) key) of None \<Rightarrow> [] | Some val \<Rightarrow> val) of
        None \<Rightarrow> None
      | Some (Inl p) \<Rightarrow> Some (Inl p)
      | Some (Inr (_, dht', tr')) \<Rightarrow> replicate_keys fuel now ctx keys (dht', tr'))"

text \<open>The loop over the routing tables in one tick of \<open>handleStoreTimers\<close>.\<close>
fun timer_tables ::
  "nat \<Rightarrow> time \<Rightarrow> (nat \<Rightarrow> nat \<Rightarrow> bytes) \<Rightarrow> bytes list \<Rightarrow> nat list \<Rightarrow> DHT \<times> transport \<Rightarrow>
   (go_panic + DHT \<times> transport) option" where
  "timer_tables fuel now rnd keys [] acc = Some (Inr acc)"
| "timer_tables fuel now rnd keys (k # ks) (dht, tr) =
     (case SetNodeByID dht (ID (Origin (tables dht ! k))) of
        None \<Rightarrow> Some (Inl (FatalError ''node not found''))
      | Some ctx \<Rightarrow>
          (case refresh_buckets fuel now (rnd k) k ctx [0..<KeyBitSize] (dht, tr) of
             None \<Rightarrow> None
           | Some (Inl p) \<Rightarrow> Some (Inl p)
           | Some (Inr acc1) \<Rightarrow>
               (case replicate_keys fuel now ctx keys acc1 of
                  None \<Rightarrow> None
                | Some (Inl p) \<Rightarrow> Some (Inl p)
                | Some (Inr acc2) \<Rightarrow> timer_tables fuel now rnd keys ks acc2)))"

text \<open>One tick of \<open>handleStoreTimers\<close>: refresh, replication, expiration.\<close>
definition timer_tick ::
  "nat \<Rightarrow> time \<Rightarrow> (nat \<Rightarrow> nat \<Rightarrow> bytes) \<Rightarrow> DHT \<times> transport \<Rightarrow> (go_panic + DHT \<times> transport) option" where
  "timer_tick fuel now rnd acc =
     (case acc of
        (dht, tr) \<Rightarrow>
          let keys = GetKeysReadyToReplicate now (store dht) in
          (case timer_tables fuel now rnd keys [0..<length (tables dht)] (dht, tr) of
             None \<Rightarrow> None
           | Some (Inl p) \<Rightarrow> Some (Inl p)
           | Some (Inr (dht', tr')) \<Rightarrow> Some (Inr (dht'\<lparr>store := ExpireKeys now (store dht')\<rparr>, tr'))))"

text \<open>The bucket invariant: at most K entries in every bucket, identifiers distinct
  within a bucket.\<close>
definition bucket_ok :: "route_node list \<Rightarrow> bool" where
  "bucket_ok b \<longleftrightarrow> length b \<le> MaxContactsInBucket \<and> distinct (map (ID \<circ> Node) b)"

definition buckets_ok :: "hash_table \<Rightarrow> bool" where
  "buckets_ok ht \<longleftrightarrow> list_all bucket_ok (RoutingTable ht)"

text \<open>The first half of the invariant alone: at most K entries in every bucket.\<close>
definition buckets_capacity :: "hash_table \<Rightarrow> bool" where
  "buckets_capacity ht \<longleftrightarrow> list_all (\<lambda>b. length b \<le> MaxContactsInBucket) (RoutingTable ht)"

section \<open>A node with one identity and a full bucket\<close>

definition example_origin :: node where
  "example_origin = \<lparr>ID = replicate 20 0, Address = ''127.0.0.1:40001''\<rparr>"

text \<open>Peer \<open>k\<close>: its identifier differs from the origin's in the most significant bit,
  so that it belongs to bucket 0.\<close>
definition example_peer :: "nat \<Rightarrow> route_node" where
  "example_peer k =
     NewRouteNode \<lparr>ID = (128 + of_nat k) # replicate 19 0, Address = ''127.0.0.1:40002''\<rparr>"

definition example_empty_table :: hash_table where
  "example_empty_table =
     \<lparr>Origin = example_origin, RoutingTable = replicate 160 [], refreshMap = replicate 160 0\<rparr>"

definition example_full_table :: hash_table where
  "example_full_table =
     example_empty_table\<lparr>RoutingTable := (replicate 160 [])[0 := map example_peer [0..<20]]\<rparr>"

definition example_evicted_table :: hash_table where
  "example_evicted_table =
     example_empty_table\<lparr>RoutingTable := (replicate 160 [])[0 := map example_peer [1..<21]]\<rparr>"

definition ping_reply :: message where
  "ping_reply =
     \<lparr>Sender = Node (example_peer 0), Receiver = example_origin, Type = TypePing,
      RequestID = [], Data = NoData, Error = None, IsResponse = True\<rparr>"

text \<open>Three networks: one where every request is answered by \<open>ping_reply\<close>, one where
  no request is answered, one where no request can be sent.\<close>
definition replying_transport :: transport where
  "replying_transport = \<lparr>respond = (\<lambda>m. (Some (Reply ping_reply), None)), calls = []\<rparr>"

definition silent_transport :: transport where
  "silent_transport = \<lparr>respond = (\<lambda>m. (Some NoReply, None)), calls = []\<rparr>"

definition failing_transport :: transport where
  "failing_transport = \<lparr>respond = (\<lambda>m. (None, Some ''send failed'')), calls = []\<rparr>"

definition example_options :: Options where
  "example_options =
     with_defaults \<lparr>BootstrapNodes = [], ExpirationTime = 0, RefreshTime = 0, ReplicateTime = 0,
                    RepublishTime = 0, PingTimeout = 0, MessageTimeout = 0\<rparr>"

text \<open>A node with the full table, the default options, an empty store and no remote
  procedure.\<close>
definition example_dht :: DHT where
  "example_dht =
     \<lparr>tables = [example_full_table], options = example_options, store = [],
      rpc = (\<lambda>sender method args. ([], Some ''method not found''))\<rparr>"

text \<open>A key of bucket 1: the 20 entries of bucket 0 make its density score 20.\<close>
definition example_key :: bytes where
  "example_key = 64 # replicate 19 0"

text \<open>A node that knows one peer (in bucket 0), and a network in which every node
  answers a request with an empty list of closest nodes (and no value).\<close>
definition example_single_table :: hash_table where
  "example_single_table =
     example_empty_table\<lparr>RoutingTable := (replicate 160 [])[0 := [example_peer 0]]\<rparr>"

definition example_single_dht :: DHT where
  "example_single_dht = example_dht\<lparr>tables := [example_single_table]\<rparr>"

definition empty_answer :: "message \<Rightarrow> message" where
  "empty_answer m =
     \<lparr>Sender = Receiver m, Receiver = Sender m, Type = Type m, RequestID = [],
      Data = (case Type m of
                TypeFindNode \<Rightarrow> ResponseDataFindNode []
              | TypeFindValue \<Rightarrow> ResponseDataFindValue [] None
              | _ \<Rightarrow> NoData),
      Error = None, IsResponse = True\<rparr>"

definition answering_transport :: transport where
  "answering_transport = \<lparr>respond = (\<lambda>m. (Some (Reply (empty_answer m)), None)), calls = []\<rparr>"

text \<open>A network in which the node that receives a request answers it with the value
  \<open>val\<close>: a slice that is not nil, also when it is empty.\<close>
definition value_answer :: "bytes \<Rightarrow> message \<Rightarrow> message" where
  "value_answer val m =
     \<lparr>Sender = Receiver m, Receiver = Sender m, Type = Type m, RequestID = [],
      Data = ResponseDataFindValue [] (Some val), Error = None, IsResponse = True\<rparr>"

definition value_transport :: "bytes \<Rightarrow> transport" where
  "value_transport val = \<lparr>respond = (\<lambda>m. (Some (Reply (value_answer val m)), None)), calls = []\<rparr>"

text \<open>The FindValue request for \<open>example_key\<close> that the node with one peer sends to that
  peer, and the table of that node when the peer was seen at time \<open>t\<close>.\<close>
definition example_find_value :: message where
  "example_find_value =
     iterate_request IterateFindValue example_origin (Node (example_peer 0)) example_key"

definition example_seen_table :: "time \<Rightarrow> hash_table" where
  "example_seen_table t =
     example_empty_table\<lparr>RoutingTable := (replicate 160 [])[0 := [(example_peer 0)\<lparr>LastSeen := t\<rparr>]]\<rparr>"

text \<open>The table with the same peer twice in bucket 0.\<close>
definition example_doubled_table :: hash_table where
  "example_doubled_table =
     example_empty_table\<lparr>RoutingTable := (replicate 160 [])[0 := [example_peer 0, example_peer 0]]\<rparr>"

text \<open>The observable part of a run: the routing tables and the calls made of the transport.\<close>
definition observe :: "(go_panic + DHT \<times> transport) option \<Rightarrow> (go_panic + hash_table list \<times> event list) option" where
  "observe r = map_option (map_sum id (\<lambda>(dht, tr). (tables dht, calls tr))) r"

text \<open>A tick at 4000 s, when every bucket was last refreshed at 0 and is stale under the
  default refresh time of 3600 s; the random bytes of the draw; and the table after
  the refresh pass has dealt with bucket 0: the peer was seen, and the refresh clock
  of bucket 20 was reset.\<close>
definition example_tick :: time where
  "example_tick = 4000000000000"

definition example_random :: bytes where
  "example_random = replicate 20 255"

definition example_refreshed_table :: hash_table where
  "example_refreshed_table =
     example_empty_table
       \<lparr>RoutingTable := (replicate 160 [])[0 := [(example_peer 0)\<lparr>LastSeen := example_tick\<rparr>]],
        refreshMap := (replicate 160 0)[20 := example_tick]\<rparr>"

text \<open>A network in which the queries of an iteration are answered, and a Store request
  cannot be sent: \<open>SendRequest\<close> returns no future and an error.\<close>
definition store_failing_transport :: transport where
  "store_failing_transport =
     \<lparr>respond = (\<lambda>m. if Type m = TypeStore then (None, Some ''send failed'')
                       else (Some (Reply (empty_answer m)), None)),
      calls = []\<rparr>"

definition example_data :: bytes where
  "example_data = [104, 101, 108, 108, 111]"

section \<open>A base58 codec and a stand-in for the content hash\<close>

text \<open>The examples need a codec and a key function to run with. The codec is base58
  over the Bitcoin alphabet: the bytes read as a big-endian number, written in base
  58, with one \<open>1\<close> for each leading zero byte.\<close>
definition b58_alphabet :: string where
  "b58_alphabet = ''123456789ABCDEFGHJKLMNPQRSTUVWXYZabcdefghijkmnopqrstuvwxyz''"

function b58_digits :: "int \<Rightarrow> int list" where
  "b58_digits n = (if n \<le> 0 then [] else b58_digits (n div 58) @ [n mod 58])"
  by pat_completeness auto
termination
  by (relation "measure nat") auto

function int_bytes :: "int \<Rightarrow> bytes" where
  "int_bytes n = (if n \<le> 0 then [] else int_bytes (n div 256) @ [word_of_int (n mod 256)])"
  by pat_completeness auto
termination
  by (relation "measure nat") auto

declare b58_digits.simps [simp del]
declare int_bytes.simps [simp del]

fun b58_index :: "char \<Rightarrow> string \<Rightarrow> int" where
  "b58_index c [] = 0"
| "b58_index c (a # as) = (if c = a then 0 else 1 + b58_index c as)"

definition b58_encode :: "bytes \<Rightarrow> string" where
  "b58_encode bs =
     replicate (length (takeWhile (\<lambda>b. b = 0) bs)) (CHR ''1'')
       @ map (\<lambda>d. b58_alphabet ! nat d) (b58_digits (be_int bs))"

definition b58_decode :: "string \<Rightarrow> bytes" where
  "b58_decode s =
     (if list_all (\<lambda>c. c \<in> set b58_alphabet) s
      then replicate (length (takeWhile (\<lambda>c. c = CHR ''1'') s)) 0
             @ int_bytes (foldl (\<lambda>acc c. acc * 58 + b58_index c b58_alphabet) 0 s)
      else [])"

text \<open>The stand-in for the content hash cuts or pads the data to 20 bytes.\<close>
definition example_externals :: externals where
  "example_externals =
     \<lparr>base58_Encode = b58_encode, base58_Decode = b58_decode,
      NewKey = (\<lambda>data. take 20 (data @ replicate 20 1))\<rparr>"

text \<open>The node with one peer, holding \<open>example_data\<close> under \<open>example_key\<close>.\<close>
definition example_stored_dht :: DHT where
  "example_stored_dht =
     example_single_dht\<lparr>store := fst (store_Store [] example_key example_data 0 0 True)\<rparr>"

text \<open>Inbound requests from peer 1, whom the node with one peer does not know yet.\<close>
definition example_request :: "message_type \<Rightarrow> payload \<Rightarrow> message" where
  "example_request ty d =
     \<lparr>Sender = Node (example_peer 1), Receiver = example_origin, Type = ty,
      RequestID = [7, 7, 7], Data = d, Error = None, IsResponse = False\<rparr>"

text \<open>The table of the node with one peer after peer 1 was added.\<close>
definition example_two_table :: hash_table where
  "example_two_table =
     example_empty_table\<lparr>RoutingTable := (replicate 160 [])[0 := [example_peer 0, example_peer 1]]\<rparr>"

text \<open>A bootstrap node known by address only, and the node with one peer configured
  with it.\<close>
definition example_seed :: node where
  "example_seed = \<lparr>ID = [], Address = ''127.0.0.1:40003''\<rparr>"

definition example_seeded_dht :: DHT where
  "example_seeded_dht =
     example_single_dht\<lparr>options := (options example_single_dht)\<lparr>BootstrapNodes := [example_seed]\<rparr>\<rparr>"

text \<open>Networks in which the receiver of a request answers it with the outcome of a
  remote procedure: a result, or the error of the handler.\<close>
definition rpc_answer :: "bool \<Rightarrow> bytes \<Rightarrow> string \<Rightarrow> message \<Rightarrow> message" where
  "rpc_answer success result err m =
     \<lparr>Sender = Receiver m, Receiver = Sender m, Type = Type m, RequestID = [],
      Data = ResponseDataRPC success result err, Error = None, IsResponse = True\<rparr>"

definition rpc_ok_transport :: transport where
  "rpc_ok_transport =
     \<lparr>respond = (\<lambda>m. (Some (Reply (rpc_answer True [120, 32, 121] [] m)), None)), calls = []\<rparr>"

definition rpc_error_transport :: transport where
  "rpc_error_transport =
     \<lparr>respond = (\<lambda>m. (Some (Reply (rpc_answer False [] ''no such method'' m)), None)), calls = []\<rparr>"

text \<open>The base58 form of the identifier of peer 0, and of an identifier that no node of
  the examples has.\<close>
definition example_target :: string where
  "example_target = b58_encode (ID (Node (example_peer 0)))"

definition example_stranger :: string where
  "example_stranger = b58_encode (ID (Node (example_peer 9)))"

text \<open>The call of procedure \<open>s\<close> with the arguments \<open>x\<close> and \<open>y\<close> on peer 0, and a node
  that knows nobody.\<close>
definition example_rpc_request :: message where
  "example_rpc_request = rpc_request example_origin (Node (example_peer 0)) ''s'' [[120], [121]]"

definition example_empty_dht :: DHT where
  "example_empty_dht = example_dht\<lparr>tables := [example_empty_table]\<rparr>"

section \<open>Lemmas and theorems\<close>

subsection \<open>addNode and the bucket invariant\<close>

lemma length_move_to_tail: "length (move_to_tail now nid b) = length b"
  by (induction b) auto

lemma ids_move_to_tail:
  "set (map (ID \<circ> Node) (move_to_tail now nid b)) = set (map (ID \<circ> Node) b)"
  by (induction b) auto

lemma distinct_move_to_tail:
  "distinct (map (ID \<circ> Node) b) \<Longrightarrow> distinct (map (ID \<circ> Node) (move_to_tail now nid b))"
proof (induction b)
  case Nil
  then show ?case by simp
next
  case (Cons r rs)
  have "ID (Node r) \<notin> set (map (ID \<circ> Node) (move_to_tail now nid rs))"
    using Cons.prems ids_move_to_tail [of now nid rs] by simp
  with Cons show ?case by auto
qed

lemma bucket_ok_move_to_tail: "bucket_ok b \<Longrightarrow> bucket_ok (move_to_tail now nid b)"
  by (simp add: bucket_ok_def length_move_to_tail distinct_move_to_tail)

lemma list_all_update: "list_all P xs \<Longrightarrow> P x \<Longrightarrow> list_all P (xs[i := x])"
  by (induction xs arbitrary: i) (auto split: nat.splits)

lemma buckets_ok_update:
  "buckets_ok ht \<Longrightarrow> bucket_ok b \<Longrightarrow> buckets_ok (ht\<lparr>RoutingTable := (RoutingTable ht)[i := b]\<rparr>)"
  by (simp add: buckets_ok_def list_all_update)

lemma buckets_ok_nth:
  "buckets_ok ht \<Longrightarrow> i < length (RoutingTable ht) \<Longrightarrow> bucket_ok (RoutingTable ht ! i)"
  by (simp add: buckets_ok_def list_all_length)

lemma buckets_ok_MarkNodeAsSeen: "buckets_ok ht \<Longrightarrow> buckets_ok (MarkNodeAsSeen now ht nid)"
  by (auto simp: MarkNodeAsSeen_def buckets_ok_update buckets_ok_nth bucket_ok_move_to_tail
      split: option.splits)

lemma bucket_ok_append:
  "bucket_ok b \<Longrightarrow> length b \<noteq> MaxContactsInBucket \<Longrightarrow> ID (Node n) \<notin> set (map (ID \<circ> Node) b)
   \<Longrightarrow> bucket_ok (b @ [n])"
  by (auto simp: bucket_ok_def)

lemma bucket_ok_evict_append:
  "bucket_ok b \<Longrightarrow> length b = MaxContactsInBucket \<Longrightarrow> ID (Node n) \<notin> set (map (ID \<circ> Node) b)
   \<Longrightarrow> bucket_ok (tl b @ [n])"
  by (cases b) (auto simp: bucket_ok_def MaxContactsInBucket_def)

lemma tl_append_nonempty: "b \<noteq> [] \<Longrightarrow> tl (b @ [n]) = tl b @ [n]"
  by (cases b) auto

text \<open>On a full bucket that does not hold the new identifier, \<open>addNode\<close> either leaves
  the table as it is or drops the head and appends the new node.\<close>
lemma addNode_full_cases:
  assumes "GetBucketIndexFromDifferingBit (ID (Origin ht)) (ID (Node n)) = Some index"
    and "\<not> DoesNodeExistInBucket ht index (ID (Node n))"
    and "index < length (RoutingTable ht)"
    and "length (RoutingTable ht ! index) = MaxContactsInBucket"
    and "addNode tr now ht n = Inr (ht', tr')"
  shows "ht' = ht \<or>
         ht' = ht\<lparr>RoutingTable := (RoutingTable ht)[index := tl (RoutingTable ht ! index) @ [n]]\<rparr>"
proof -
  have ne: "RoutingTable ht ! index \<noteq> []"
    using assms(4) by (auto simp: MaxContactsInBucket_def)
  show ?thesis
    using assms
    by (auto simp: addNode_def addNode_test_def addNode_locked_def Let_def SendRequest_def tl_append_nonempty [OF ne]
        split: prod.splits option.splits future.splits)
qed

text \<open>A call of \<open>addNode\<close> that runs alone keeps the bucket invariant: when every bucket
  of a routing table holds at most K entries with identifiers distinct within the
  bucket, the same is true of the table that the call leaves, whatever the transport
  does with the ping to the head of a full bucket.\<close>
lemma addNode_alone_preserves_buckets_ok:
  assumes inv: "buckets_ok ht" and res: "addNode tr now ht n = Inr (ht', tr')"
  shows "buckets_ok ht'"
proof -
  obtain index where idx: "GetBucketIndexFromDifferingBit (ID (Origin ht)) (ID (Node n)) = Some index"
    using res by (auto simp: addNode_def addNode_test_def addNode_locked_def split: option.splits)
  show ?thesis
  proof (cases "DoesNodeExistInBucket ht index (ID (Node n))")
    case True
    with res idx have "ht' = MarkNodeAsSeen now ht (ID (Node n))"
      by (simp add: addNode_def addNode_test_def addNode_locked_def)
    with inv show ?thesis by (simp add: buckets_ok_MarkNodeAsSeen)
  next
    case False
    with res idx have range: "index < length (RoutingTable ht)"
      by (auto simp: addNode_def addNode_test_def addNode_locked_def split: if_splits)
    define bucket where "bucket = RoutingTable ht ! index"
    have bok: "bucket_ok bucket"
      using inv range by (simp add: bucket_def buckets_ok_nth)
    have fresh: "ID (Node n) \<notin> set (map (ID \<circ> Node) bucket)"
      using False range by (simp add: DoesNodeExistInBucket_def bucket_def)
    show ?thesis
    proof (cases "length bucket = MaxContactsInBucket")
      case full: True
      have evict: "bucket_ok (tl bucket @ [n])"
        using bok full fresh by (rule bucket_ok_evict_append)
      have "ht' = ht \<or> ht' = ht\<lparr>RoutingTable := (RoutingTable ht)[index := tl bucket @ [n]]\<rparr>"
        unfolding bucket_def
        using idx False range full [unfolded bucket_def] res by (rule addNode_full_cases)
      with inv evict show ?thesis by (auto simp: buckets_ok_update)
    next
      case notfull: False
      with res idx \<open>\<not> DoesNodeExistInBucket ht index (ID (Node n))\<close> range
      have "ht' = ht\<lparr>RoutingTable := (RoutingTable ht)[index := bucket @ [n]]\<rparr>"
        by (simp add: addNode_def addNode_test_def addNode_locked_def Let_def bucket_def [symmetric])
      with inv bok notfull fresh show ?thesis
        by (simp add: buckets_ok_update bucket_ok_append)
    qed
  qed
qed

text \<open>At the full table, when the head does not answer the ping: the head is evicted and
  the new peer is at the tail.\<close>
lemma addNode_alone_preserves_buckets_ok_example:
  "buckets_ok example_full_table \<and>
   map_sum id fst (addNode silent_transport 0 example_full_table (example_peer 20))
     = Inr example_evicted_table \<and>
   buckets_ok example_evicted_table"
proof -
  have inv: "buckets_ok example_full_table"
    by code_simp
  have run: "map_sum id fst (addNode silent_transport 0 example_full_table (example_peer 20))
      = Inr example_evicted_table"
    by code_simp
  then obtain tr' where res:
    "addNode silent_transport 0 example_full_table (example_peer 20) = Inr (example_evicted_table, tr')"
    by (cases "addNode silent_transport 0 example_full_table (example_peer 20)") auto
  from addNode_alone_preserves_buckets_ok [OF inv res] inv run show ?thesis
    by simp
qed

text \<open>\<open>addNode\<close> returns whenever the bucket index is defined and inside the table and
  the transport gives a future or an error.\<close>
lemma addNode_returns:
  assumes "GetBucketIndexFromDifferingBit (ID (Origin ht)) (ID (Node n)) = Some index"
    and "index < length (RoutingTable ht)"
    and "\<And>m. respond tr m \<noteq> (None, None)"
  shows "\<exists>ht' tr'. addNode tr now ht n = Inr (ht', tr')"
  using assms(1,2) assms(3) [of "NewPingMessage (Origin ht) (Node (hd (RoutingTable ht ! index)))"]
  by (auto simp: addNode_def addNode_test_def addNode_locked_def Let_def SendRequest_def split: prod.splits option.splits future.splits)

subsection \<open>Two calls of addNode for one peer\<close>

text \<open>A call that runs alone is the two parts one after the other.\<close>
lemma addNode_run_alone:
  "addNode_run now [0, 0] (ht, tr) [BeforeTest n]
     = map_sum id (\<lambda>s. (s, [Returned])) (addNode tr now ht n)"
  by (auto simp: addNode_step_def addNode_def split: sum.splits)

text \<open>Whatever the schedule, no bucket grows beyond K entries: the part under the lock
  appends to a bucket that is not full, and drops the head of a full one.\<close>
lemma buckets_capacity_update:
  "buckets_capacity ht \<Longrightarrow> length b \<le> MaxContactsInBucket \<Longrightarrow>
   buckets_capacity (ht\<lparr>RoutingTable := (RoutingTable ht)[i := b]\<rparr>)"
  by (simp add: buckets_capacity_def list_all_update)

lemma buckets_capacity_nth:
  "buckets_capacity ht \<Longrightarrow> i < length (RoutingTable ht) \<Longrightarrow>
   length (RoutingTable ht ! i) \<le> MaxContactsInBucket"
  by (simp add: buckets_capacity_def list_all_length)

lemma buckets_capacity_MarkNodeAsSeen:
  "buckets_capacity ht \<Longrightarrow> buckets_capacity (MarkNodeAsSeen now ht nid)"
  by (auto simp: MarkNodeAsSeen_def buckets_capacity_update buckets_capacity_nth length_move_to_tail
      split: option.splits)

lemma addNode_locked_capacity:
  assumes "buckets_capacity ht" and "addNode_locked tr ht index n = Inr (ht', tr')"
  shows "buckets_capacity ht'"
proof -
  from assms(2) have range: "index < length (RoutingTable ht)"
    by (auto simp: addNode_locked_def split: if_splits)
  define bucket where "bucket = RoutingTable ht ! index"
  have le: "length bucket \<le> MaxContactsInBucket"
    using assms(1) range by (simp add: bucket_def buckets_capacity_nth)
  have "ht' = ht \<or> (\<exists>b. length b \<le> MaxContactsInBucket \<and>
          ht' = ht\<lparr>RoutingTable := (RoutingTable ht)[index := b]\<rparr>)"
  proof (cases "length bucket = MaxContactsInBucket")
    case True
    then have ne: "bucket \<noteq> []"
      by (auto simp: MaxContactsInBucket_def)
    from True ne have len: "length (tl bucket @ [n]) \<le> MaxContactsInBucket"
      by (cases bucket) auto
    from True assms(2) range
    have "ht' = ht \<or> ht' = ht\<lparr>RoutingTable := (RoutingTable ht)[index := tl bucket @ [n]]\<rparr>"
      unfolding addNode_locked_def Let_def bucket_def [symmetric]
      by (auto simp: SendRequest_def tl_append_nonempty [OF ne]
          split: prod.splits option.splits future.splits)
    with len show ?thesis by blast
  next
    case False
    with le have len: "length (bucket @ [n]) \<le> MaxContactsInBucket" by simp
    from False assms(2) range
    have "ht' = ht\<lparr>RoutingTable := (RoutingTable ht)[index := bucket @ [n]]\<rparr>"
      unfolding addNode_locked_def Let_def bucket_def [symmetric] by auto
    with len show ?thesis by blast
  qed
  with assms(1) show ?thesis by (auto simp: buckets_capacity_update)
qed

lemma addNode_step_capacity:
  assumes "buckets_capacity ht" and "addNode_step now (ht, tr) c = Inr ((ht', tr'), c')"
  shows "buckets_capacity ht'"
  using assms
  by (auto simp: addNode_step_def addNode_test_def buckets_capacity_MarkNodeAsSeen
      split: addNode_call.splits sum.splits option.splits if_splits
      dest: addNode_locked_capacity)

lemma addNode_run_capacity:
  "buckets_capacity ht \<Longrightarrow> addNode_run now sched (ht, tr) cs = Inr ((ht', tr'), cs') \<Longrightarrow>
   buckets_capacity ht'"
proof (induction sched arbitrary: ht tr cs)
  case Nil
  then show ?case by simp
next
  case (Cons g sched)
  show ?case
  proof (cases "g < length cs")
    case False
    with Cons.prems(2) have "addNode_run now sched (ht, tr) cs = Inr ((ht', tr'), cs')" by simp
    with Cons.prems(1) show ?thesis by (rule Cons.IH)
  next
    case True
    with Cons.prems(2) obtain ht1 tr1 c1 where
      step: "addNode_step now (ht, tr) (cs ! g) = Inr ((ht1, tr1), c1)" and
      rest: "addNode_run now sched (ht1, tr1) (cs[g := c1]) = Inr ((ht', tr'), cs')"
      by (auto split: sum.splits)
    from Cons.prems(1) step have "buckets_capacity ht1" by (rule addNode_step_capacity)
    then show ?thesis using rest by (rule Cons.IH)
  qed
qed

text \<open>Claim C8 for two calls of \<open>addNode\<close> that run side by side, for the same peer,
  on the empty table, which has the invariant: each call tests bucket 0 before the
  other has taken the lock, finds that the bucket does not hold the identifier, and
  appends the peer under the lock. Afterwards bucket 0 holds the identifier twice: the
  identifiers of the bucket are not distinct, and the table does not have the
  invariant. No request was made of the transport.\<close>
theorem addNode_side_by_side_duplicates:
  "buckets_ok example_empty_table \<and>
   map_sum id (\<lambda>((ht, tr), cs). (ht, calls tr, cs))
     (addNode_run 0 [0, 1, 0, 1] (example_empty_table, silent_transport)
        [BeforeTest (example_peer 0), BeforeTest (example_peer 0)])
     = Inr (example_doubled_table, [], [Returned, Returned]) \<and>
   RoutingTable example_doubled_table ! 0 = [example_peer 0, example_peer 0] \<and>
   \<not> distinct (map (ID \<circ> Node) (RoutingTable example_doubled_table ! 0)) \<and>
   \<not> buckets_ok example_doubled_table"
  by code_simp

text \<open>The same two calls one after the other: the second finds the peer in the bucket
  and marks it as seen.\<close>
lemma addNode_one_after_the_other:
  "map_sum id (\<lambda>((ht, tr), cs). (ht, calls tr, cs))
     (addNode_run 7 [0, 0, 1, 1] (example_empty_table, silent_transport)
        [BeforeTest (example_peer 0), BeforeTest (example_peer 0)])
     = Inr (example_seen_table 7, [], [Returned, Returned]) \<and>
   buckets_ok (example_seen_table 7)"
  by code_simp

subsection \<open>A full bucket whose head answers the ping\<close>

text \<open>Claim C2, as stated, fails: in the full table, where the head of bucket 0 answers
  the ping, \<open>addNode\<close> returns the table as it was, with the head still at the head and
  not at the tail.\<close>
theorem addNode_reply_head_to_tail_counterexample:
  "map_sum id fst (addNode replying_transport 0 example_full_table (example_peer 20))
     = Inr example_full_table \<and>
   hd (RoutingTable example_full_table ! 0) = example_peer 0 \<and>
   last (RoutingTable example_full_table ! 0) \<noteq> example_peer 0"
  by code_simp

text \<open>Claim C2, amended. On a full bucket (K entries) that does not hold the new
  identifier, when the head answers the ping, \<open>addNode\<close> leaves the routing table as
  it is: the head stays where it is, the new node is dropped, and the bucket keeps
  its K entries. The ping is the one request made of the transport.\<close>
theorem addNode_full_bucket_reply_unchanged:
  assumes "GetBucketIndexFromDifferingBit (ID (Origin ht)) (ID (Node n)) = Some index"
    and "\<not> DoesNodeExistInBucket ht index (ID (Node n))"
    and "index < length (RoutingTable ht)"
    and "length (RoutingTable ht ! index) = MaxContactsInBucket"
    and "respond tr (NewPingMessage (Origin ht) (Node (hd (RoutingTable ht ! index))))
           = (Some (Reply rsp), None)"
  shows "addNode tr now ht n =
           Inr (ht, tr\<lparr>calls := calls tr @
                  [Requested (NewPingMessage (Origin ht) (Node (hd (RoutingTable ht ! index))))]\<rparr>)"
  using assms by (simp add: addNode_def addNode_test_def addNode_locked_def Let_def SendRequest_def)

theorem addNode_full_bucket_reply_unchanged_witness:
  "GetBucketIndexFromDifferingBit (ID (Origin example_full_table)) (ID (Node (example_peer 20))) = Some 0 \<and>
   \<not> DoesNodeExistInBucket example_full_table 0 (ID (Node (example_peer 20))) \<and>
   0 < length (RoutingTable example_full_table) \<and>
   length (RoutingTable example_full_table ! 0) = MaxContactsInBucket \<and>
   respond replying_transport
     (NewPingMessage (Origin example_full_table) (Node (hd (RoutingTable example_full_table ! 0))))
       = (Some (Reply ping_reply), None) \<and>
   addNode replying_transport 0 example_full_table (example_peer 20) =
     Inr (example_full_table,
          replying_transport\<lparr>calls := calls replying_transport @
            [Requested (NewPingMessage (Origin example_full_table)
               (Node (hd (RoutingTable example_full_table ! 0))))]\<rparr>)"
proof -
  have h1: "GetBucketIndexFromDifferingBit (ID (Origin example_full_table)) (ID (Node (example_peer 20))) = Some 0"
    by code_simp
  have h2: "\<not> DoesNodeExistInBucket example_full_table 0 (ID (Node (example_peer 20)))"
    by code_simp
  have h3: "0 < length (RoutingTable example_full_table)"
    by code_simp
  have h4: "length (RoutingTable example_full_table ! 0) = MaxContactsInBucket"
    by code_simp
  have h5: "respond replying_transport
     (NewPingMessage (Origin example_full_table) (Node (hd (RoutingTable example_full_table ! 0))))
       = (Some (Reply ping_reply), None)"
    by (simp add: replying_transport_def)
  from addNode_full_bucket_reply_unchanged [OF h1 h2 h3 h4 h5, of 0] h1 h2 h3 h4 h5
  show ?thesis by simp
qed

subsection \<open>A full bucket whose head does not answer\<close>

text \<open>When the ping cannot be sent, or is not answered in time, the head of the full
  bucket is dropped and the new node is appended at the tail.\<close>
lemma addNode_full_bucket_evicts:
  assumes "GetBucketIndexFromDifferingBit (ID (Origin ht)) (ID (Node n)) = Some index"
    and "\<not> DoesNodeExistInBucket ht index (ID (Node n))"
    and "index < length (RoutingTable ht)"
    and "length (RoutingTable ht ! index) = MaxContactsInBucket"
    and "respond tr (NewPingMessage (Origin ht) (Node (hd (RoutingTable ht ! index)))) = (f, Some err) \<or>
         respond tr (NewPingMessage (Origin ht) (Node (hd (RoutingTable ht ! index)))) = (Some NoReply, None)"
  shows "map_sum id fst (addNode tr now ht n) =
           Inr (ht\<lparr>RoutingTable := (RoutingTable ht)[index := tl (RoutingTable ht ! index) @ [n]]\<rparr>)"
proof -
  have ne: "RoutingTable ht ! index \<noteq> []"
    using assms(4) by (auto simp: MaxContactsInBucket_def)
  show ?thesis
    using assms
    by (auto simp: addNode_def addNode_test_def addNode_locked_def Let_def SendRequest_def tl_append_nonempty [OF ne]
        split: option.splits future.splits)
qed

lemma addNode_send_failure_example:
  "map_sum id fst (addNode failing_transport 0 example_full_table (example_peer 20))
     = Inr example_evicted_table"
  by code_simp

subsection \<open>The table of truncated exponentials\<close>

text \<open>Euler's number to eleven digits, from the Maclaurin series of the exponential
  with seventeen terms.\<close>
lemma exp_one_bounds:
  "(271828182845 / 100000000000 :: real) \<le> exp 1"
  "exp 1 \<le> (271828182846 / 100000000000 :: real)"
proof -
  obtain t :: real where t: "\<bar>t\<bar> \<le> \<bar>1\<bar>"
    and e: "exp (1::real) = (\<Sum>m<17. 1 ^ m / fact m) + (exp t / fact 17) * 1 ^ 17"
    using Maclaurin_exp_le [of 1 17] by blast
  define S :: real where "S = (\<Sum>m<17. 1 ^ m / fact m)"
  define R :: real where "R = exp t / fact 17"
  have sum: "exp 1 = S + R"
    unfolding S_def R_def using e by simp
  have R0: "0 \<le> R"
    unfolding R_def by simp
  from t have "exp t \<le> exp 1" by simp
  with exp_le have "exp t \<le> 3" by linarith
  then have R1: "R \<le> 3 / fact 17"
    unfolding R_def by (simp add: divide_right_mono)
  have S0: "(271828182845 / 100000000000 :: real) \<le> S"
    unfolding S_def by (simp add: lessThan_Suc fact_numeral numeral_eq_Suc)
  have S1: "S + 3 / fact 17 \<le> (271828182846 / 100000000000 :: real)"
    unfolding S_def by (simp add: lessThan_Suc fact_numeral numeral_eq_Suc)
  from sum R0 S0 show "(271828182845 / 100000000000 :: real) \<le> exp 1"
    by linarith
  from sum R1 S1 show "exp 1 \<le> (271828182846 / 100000000000 :: real)"
    by linarith
qed

lemma floor_exp_nat:
  assumes "real_of_int z \<le> (271828182845 / 100000000000) ^ q"
    and "(271828182846 / 100000000000) ^ q < real_of_int z + 1"
  shows "\<lfloor>exp (real q)\<rfloor> = z"
proof -
  have e: "exp (real q) = exp 1 ^ q"
    using exp_of_nat_mult [of q "1::real"] by simp
  have "(271828182845 / 100000000000) ^ q \<le> exp (1::real) ^ q"
    by (rule power_mono) (use exp_one_bounds in simp_all)
  moreover have "exp (1::real) ^ q \<le> (271828182846 / 100000000000) ^ q"
    by (rule power_mono) (use exp_one_bounds in simp_all)
  ultimately have "real_of_int z \<le> exp (real q)" "exp (real q) < real_of_int z + 1"
    using assms e by linarith+
  then show ?thesis by (rule floor_unique)
qed

text \<open>The entries of \<open>int64_Exp\<close> are the exponentials of the whole numbers up to 20,
  rounded towards zero.\<close>
lemma int64_Exp_floor:
  assumes "q \<le> 20"
  shows "sint (int64_Exp q) = \<lfloor>exp (real q)\<rfloor>"
proof -
  have f0: "\<lfloor>exp (0::real)\<rfloor> = 1"
    using floor_exp_nat [of 1 0] by (simp add: power_divide)
  have f1: "\<lfloor>exp (1::real)\<rfloor> = 2"
    using floor_exp_nat [of 2 1] by (simp add: power_divide)
  have f2: "\<lfloor>exp (2::real)\<rfloor> = 7"
    using floor_exp_nat [of 7 2] by (simp add: power_divide)
  have f3: "\<lfloor>exp (3::real)\<rfloor> = 20"
    using floor_exp_nat [of 20 3] by (simp add: power_divide)
  have f4: "\<lfloor>exp (4::real)\<rfloor> = 54"
    using floor_exp_nat [of 54 4] by (simp add: power_divide)
  have f5: "\<lfloor>exp (5::real)\<rfloor> = 148"
    using floor_exp_nat [of 148 5] by (simp add: power_divide)
  have f6: "\<lfloor>exp (6::real)\<rfloor> = 403"
    using floor_exp_nat [of 403 6] by (simp add: power_divide)
  have f7: "\<lfloor>exp (7::real)\<rfloor> = 1096"
    using floor_exp_nat [of 1096 7] by (simp add: power_divide)
  have f8: "\<lfloor>exp (8::real)\<rfloor> = 2980"
    using floor_exp_nat [of 2980 8] by (simp add: power_divide)
  have f9: "\<lfloor>exp (9::real)\<rfloor> = 8103"
    using floor_exp_nat [of 8103 9] by (simp add: power_divide)
  have f10: "\<lfloor>exp (10::real)\<rfloor> = 22026"
    using floor_exp_nat [of 22026 10] by (simp add: power_divide)
  have f11: "\<lfloor>exp (11::real)\<rfloor> = 59874"
    using floor_exp_nat [of 59874 11] by (simp add: power_divide)
  have f12: "\<lfloor>exp (12::real)\<rfloor> = 162754"
    using floor_exp_nat [of 162754 12] by (simp add: power_divide)
  have f13: "\<lfloor>exp (13::real)\<rfloor> = 442413"
    using floor_exp_nat [of 442413 13] by (simp add: power_divide)
  have f14: "\<lfloor>exp (14::real)\<rfloor> = 1202604"
    using floor_exp_nat [of 1202604 14] by (simp add: power_divide)
  have f15: "\<lfloor>exp (15::real)\<rfloor> = 3269017"
    using floor_exp_nat [of 3269017 15] by (simp add: power_divide)
  have f16: "\<lfloor>exp (16::real)\<rfloor> = 8886110"
    using floor_exp_nat [of 8886110 16] by (simp add: power_divide)
  have f17: "\<lfloor>exp (17::real)\<rfloor> = 24154952"
    using floor_exp_nat [of 24154952 17] by (simp add: power_divide)
  have f18: "\<lfloor>exp (18::real)\<rfloor> = 65659969"
    using floor_exp_nat [of 65659969 18] by (simp add: power_divide)
  have f19: "\<lfloor>exp (19::real)\<rfloor> = 178482300"
    using floor_exp_nat [of 178482300 19] by (simp add: power_divide)
  have f20: "\<lfloor>exp (20::real)\<rfloor> = 485165195"
    using floor_exp_nat [of 485165195 20] by (simp add: power_divide)
  from assms have "q = 0 \<or> q = 1 \<or> q = 2 \<or> q = 3 \<or> q = 4 \<or> q = 5 \<or> q = 6 \<or> q = 7 \<or> q = 8 \<or> q = 9 \<or> q = 10 \<or> q = 11 \<or> q = 12 \<or> q = 13 \<or> q = 14 \<or> q = 15 \<or> q = 16 \<or> q = 17 \<or> q = 18 \<or> q = 19 \<or> q = 20"
    by presburger
  then show ?thesis
    by (elim disjE) (simp_all add: int64_Exp_def f0 f1 f2 f3 f4 f5 f6 f7 f8 f9 f10 f11 f12 f13 f14 f15 f16 f17 f18 f19 f20)
qed

subsection \<open>The expiration deadline\<close>

text \<open>Above K the deadline is now plus the plain expiration time.\<close>
lemma expirationForScore_above_K:
  "MaxContactsInBucket < score \<Longrightarrow> expirationForScore now expirationTime score = Add now expirationTime"
  by (auto simp: expirationForScore_def MaxContactsInBucket_def)

text \<open>Up to K the deadline is computed in 64-bit integers from the integer quotient.\<close>
lemma expirationForScore_up_to_K:
  "1 \<le> score \<Longrightarrow> score \<le> MaxContactsInBucket \<Longrightarrow>
   expirationForScore now expirationTime score =
     now + sint (Second * (expirationTime * int64_Exp (MaxContactsInBucket div score)))"
  by (auto simp: expirationForScore_def Let_def Add_def)

text \<open>In terms of the exponential function: up to K the duration is the 64-bit product
  of the second, the expiration time in nanoseconds, and the exponential of the
  integer quotient of K by the score, rounded towards zero.\<close>
lemma expirationForScore_floor_exp:
  assumes "1 \<le> score" and "score \<le> MaxContactsInBucket"
  shows "expirationForScore now expirationTime score =
     now + sint (Second * (expirationTime *
             word_of_int \<lfloor>exp (real (MaxContactsInBucket div score))\<rfloor>))"
proof -
  have "MaxContactsInBucket div score \<le> 20"
    by (simp add: MaxContactsInBucket_def)
  from int64_Exp_floor [OF this]
  have "word_of_int \<lfloor>exp (real (MaxContactsInBucket div score))\<rfloor>
      = (word_of_int (sint (int64_Exp (MaxContactsInBucket div score))) :: 64 word)"
    by simp
  also have "\<dots> = int64_Exp (MaxContactsInBucket div score)"
    by simp
  finally show ?thesis
    using assms by (simp add: expirationForScore_up_to_K)
qed

text \<open>Claim C3 at the key of density score 20 = K, with the default expiration time of
  86410 s and the clock at 0: \<open>getExpirationTime\<close> gives a deadline some 239 years
  before now, which is not 86410 s times e (the exponential of K / score = 1).\<close>
theorem getExpirationTime_score_K:
  "getExpirationTime 0 example_dht 0 example_key = Inr (- 7545226584789090304) \<and>
   expirationForScore 0 (ExpirationTime (options example_dht)) 20 = - 7545226584789090304 \<and>
   real_of_int (- 7545226584789090304) \<noteq>
     0 + real_of_int (sint (ExpirationTime (options example_dht)))
           * exp (real MaxContactsInBucket / real 20)"
proof -
  have a: "getExpirationTime 0 example_dht 0 example_key = Inr (- 7545226584789090304)"
    by code_simp
  have b: "expirationForScore 0 (ExpirationTime (options example_dht)) 20 = - 7545226584789090304"
    by code_simp
  have c: "sint (ExpirationTime (options example_dht)) = 86410000000000"
    by code_simp
  define claimed where
    "claimed = real_of_int (sint (ExpirationTime (options example_dht)))
                 * exp (real MaxContactsInBucket / real 20)"
  define computed where "computed = real_of_int (- 7545226584789090304)"
  have pos: "0 < claimed"
    unfolding claimed_def c by simp
  have neg: "computed < 0"
    unfolding computed_def by simp
  from pos neg have "computed \<noteq> 0 + claimed"
    by linarith
  with a b show ?thesis
    unfolding claimed_def computed_def by blast
qed

subsection \<open>Random identifiers of a bucket\<close>

lemma byte_bits_bits_byte8:
  "byte_bits (bits_byte [a, b, c, d, e, f, g, h]) = [a, b, c, d, e, f, g, h]"
  by (cases a; cases b; cases c; cases d; cases e; cases f; cases g; cases h;
      simp add: byte_bits_def bits_byte_def upt_rec)

lemma list_of_length_8:
  assumes "length bs = 8"
  obtains a b c d e f g h where "bs = [a, b, c, d, e, f, g, h]"
  using assms by (auto simp: numeral_eq_Suc length_Suc_conv)

lemma byte_bits_bits_byte: "length bs = 8 \<Longrightarrow> byte_bits (bits_byte bs) = bs"
  by (erule list_of_length_8) (simp only: byte_bits_bits_byte8)

lemma length_byte_bits: "length (byte_bits b) = 8"
  by (simp add: byte_bits_def)

lemma length_id_bits: "length (id_bits x) = 8 * length x"
  by (induction x) (simp_all add: id_bits_def length_byte_bits)

lemma id_bits_bits_id: "length bs = 8 * n \<Longrightarrow> id_bits (bits_id n bs) = bs"
proof (induction n arbitrary: bs)
  case 0
  then show ?case by (simp add: id_bits_def)
next
  case (Suc n)
  have "length (take 8 bs) = 8" "length (drop 8 bs) = 8 * n"
    using Suc.prems by simp_all
  then have "byte_bits (bits_byte (take 8 bs)) = take 8 bs" "id_bits (bits_id n (drop 8 bs)) = drop 8 bs"
    by (simp_all add: byte_bits_bits_byte Suc.IH)
  then have "id_bits (bits_id (Suc n) bs) = take 8 bs @ drop 8 bs"
    by (simp add: id_bits_def)
  then show ?case by simp
qed

lemma first_differing_flip:
  "i < length xs \<Longrightarrow> first_differing xs (take i xs @ (\<not> xs ! i) # ys) = Some i"
proof (induction i arbitrary: xs)
  case 0
  then show ?case by (cases xs) auto
next
  case (Suc i)
  then show ?case by (cases xs) auto
qed

text \<open>The identifier drawn for bucket \<open>i\<close> falls into bucket \<open>i\<close>, for every table, every
  bucket of the identifier width and all random bytes of the identifier length.\<close>
lemma GetRandomIDFromBucket_in_bucket:
  assumes "i < 8 * length (ID (Origin ht))" and "length rnd = length (ID (Origin ht))"
  shows "GetBucketIndexFromDifferingBit (ID (Origin ht)) (GetRandomIDFromBucket rnd ht i) = Some i"
proof -
  define own where "own = id_bits (ID (Origin ht))"
  define bits where "bits = take i own @ map Not (take 1 (drop i own)) @ drop (Suc i) (id_bits rnd)"
  have lo: "length own = 8 * length (ID (Origin ht))"
    by (simp add: own_def length_id_bits)
  with assms have i: "i < length own"
    by simp
  then have "drop i own = own ! i # drop (Suc i) own"
    by (simp add: Cons_nth_drop_Suc)
  then have flip: "map Not (take 1 (drop i own)) = [\<not> own ! i]"
    by simp
  have "length bits = 8 * length (ID (Origin ht))"
    using i lo assms(2) by (simp add: bits_def flip length_id_bits)
  then have packed: "id_bits (bits_id (length (ID (Origin ht))) bits) = bits"
    by (rule id_bits_bits_id)
  have drawn: "GetRandomIDFromBucket rnd ht i = bits_id (length (ID (Origin ht))) bits"
    unfolding GetRandomIDFromBucket_def Let_def bits_def own_def ..
  have "GetBucketIndexFromDifferingBit (ID (Origin ht)) (GetRandomIDFromBucket rnd ht i)
      = first_differing own bits"
    unfolding GetBucketIndexFromDifferingBit_def drawn packed own_def ..
  also have "\<dots> = Some i"
    unfolding bits_def flip using first_differing_flip [OF i] by simp
  finally show ?thesis .
qed

text \<open>So the identifier that the refresh pass draws for a stale bucket falls into bucket
  \<open>MaxContactsInBucket\<close> = 20, whichever bucket is stale.\<close>
lemma refresh_draw_in_bucket_20:
  assumes "length (ID (Origin ht)) = 20" and "length rnd = 20"
  shows "GetBucketIndexFromDifferingBit (ID (Origin ht))
           (GetRandomIDFromBucket rnd ht MaxContactsInBucket) = Some 20"
  using GetRandomIDFromBucket_in_bucket [of 20 ht rnd] assms
  by (simp add: MaxContactsInBucket_def)

subsection \<open>The refresh pass\<close>

text \<open>Whatever the bucket \<open>i\<close> that is found stale, the identifier is drawn from bucket
  \<open>MaxContactsInBucket\<close>.\<close>
lemma refresh_bucket_stale:
  "sint (RefreshTime (options dht)) < now - GetRefreshTimeForBucket (tables dht ! k) i \<Longrightarrow>
   refresh_bucket fuel now rnd k ctx i (dht, tr) =
     map_option (map_sum id snd)
       (dht_iterate fuel tr now dht ctx IterateBootstrap
          (GetRandomIDFromBucket rnd (tables dht ! k) 20) [])"
  by (auto simp: refresh_bucket_def Let_def MaxContactsInBucket_def split: option.splits sum.splits)

text \<open>Claim C1 at bucket 0 of a node that knows one peer. Bucket 0 is stale at the tick.
  The refresh pass draws an identifier of bucket 20, not of bucket 0, and runs the
  iterative bootstrap for it: the one request sent asks the peer for that identifier.
  Afterwards the refresh clock of bucket 20 is reset and bucket 0 is as stale as
  before.\<close>
theorem refresh_bucket_0_draws_from_bucket_20:
  "sint (RefreshTime (options example_single_dht))
     < example_tick - GetRefreshTimeForBucket (tables example_single_dht ! 0) 0 \<and>
   observe (refresh_bucket 2 example_tick example_random 0 0 0 (example_single_dht, answering_transport))
     = Some (Inr ([example_refreshed_table],
         [Requested (iterate_request IterateBootstrap example_origin (Node (example_peer 0))
            (GetRandomIDFromBucket example_random example_single_table MaxContactsInBucket))])) \<and>
   GetBucketIndexFromDifferingBit (ID example_origin)
     (GetRandomIDFromBucket example_random example_single_table MaxContactsInBucket) = Some 20 \<and>
   GetRefreshTimeForBucket example_refreshed_table 0 = 0 \<and>
   GetRefreshTimeForBucket example_refreshed_table 20 = example_tick"
proof -
  have a: "sint (RefreshTime (options example_single_dht))
     < example_tick - GetRefreshTimeForBucket (tables example_single_dht ! 0) 0"
    by code_simp
  have b: "observe (refresh_bucket 2 example_tick example_random 0 0 0 (example_single_dht, answering_transport))
     = Some (Inr ([example_refreshed_table],
         [Requested (iterate_request IterateBootstrap example_origin (Node (example_peer 0))
            (GetRandomIDFromBucket example_random example_single_table MaxContactsInBucket))]))"
    by code_simp
  have c: "GetBucketIndexFromDifferingBit (ID example_origin)
     (GetRandomIDFromBucket example_random example_single_table MaxContactsInBucket) = Some 20"
    by code_simp
  have d: "GetRefreshTimeForBucket example_refreshed_table 0 = 0"
    by code_simp
  have e: "GetRefreshTimeForBucket example_refreshed_table 20 = example_tick"
    by code_simp
  from a b c d e show ?thesis by blast
qed

subsection \<open>The final Store requests of an iterative store\<close>

text \<open>A send that returns no future ends the loop with a panic, whatever error came
  with it.\<close>
lemma store_fanout_no_future:
  "i < MaxContactsInBucket \<Longrightarrow> fst (respond tr (store_request origin receiver data)) = None \<Longrightarrow>
   store_fanout origin data i (receiver # rest) tr = Inl NilDereference"
  by (auto simp: SendRequest_def Let_def split: prod.splits option.splits)

text \<open>When every send gives a future, the loop goes through and returns.\<close>
lemma store_fanout_returns:
  "(\<And>m. fst (respond tr m) \<noteq> None) \<Longrightarrow> calls tr = l \<Longrightarrow>
   \<exists>tr'. store_fanout origin data i rs tr = Inr tr' \<and> respond tr' = respond tr"
proof (induction rs arbitrary: i tr l)
  case Nil
  then show ?case by simp
next
  case (Cons receiver rest)
  show ?case
  proof (cases "i \<ge> MaxContactsInBucket")
    case True
    then show ?thesis by simp
  next
    case False
    let ?msg = "store_request origin receiver data"
    let ?tr = "Cancel (tr\<lparr>calls := calls tr @ [Requested ?msg]\<rparr>) ?msg"
    obtain f e where r: "respond tr ?msg = (Some f, e)"
      using Cons.prems(1) [of ?msg] by (cases "respond tr ?msg") auto
    have "\<And>m. fst (respond ?tr m) \<noteq> None"
      using Cons.prems(1) by (simp add: Cancel_def)
    from Cons.IH [OF this refl, of "Suc i"]
    obtain tr' where "store_fanout origin data (Suc i) rest ?tr = Inr tr'" "respond tr' = respond ?tr"
      by blast
    with False r show ?thesis
      by (simp add: SendRequest_def Cancel_def Let_def)
  qed
qed

text \<open>Claim C4 on a node that knows one peer, in a network that answers the queries
  and fails to send a Store request: the iterative store ends in a nil dereference
  instead of returning, and so does the final loop taken alone.\<close>
theorem iterate_store_send_failure_panics:
  "map_option (map_sum id fst)
     (iterate 1 store_failing_transport 0 example_single_table IterateStore example_key example_data)
     = Some (Inl NilDereference) \<and>
   respond store_failing_transport (store_request example_origin (Node (example_peer 0)) example_data)
     = (None, Some ''send failed'') \<and>
   map_sum id calls
     (store_fanout example_origin example_data 0 [Node (example_peer 0)] store_failing_transport)
     = Inl NilDereference"
  by code_simp

subsection \<open>A query that cannot be sent\<close>

text \<open>The query loop of \<open>iterate\<close> checks the error of \<open>SendRequest\<close>: in the network where
  no request can be sent, the iterative store drops the peer from the route-set and
  returns, with the routing table as it was and the one request on record.\<close>
lemma iterate_query_send_failure_example:
  "map_option (map_sum id (\<lambda>(r, ht, tr). (r, ht, calls tr)))
     (iterate 1 failing_transport 0 example_single_table IterateStore example_key example_data)
   = Some (Inr ((None, [], None), example_single_table,
       [Requested (iterate_request IterateStore example_origin (Node (example_peer 0)) example_key)]))"
  by code_simp

subsection \<open>What iterate returns\<close>

text \<open>Every return of \<open>iterate\<close> has a nil error.\<close>
lemma iterate_round_no_error:
  "iterate_round now t target data s = Inr (Inl ((v, c, e), ht, tr)) \<Longrightarrow> e = None"
  unfolding iterate_round_def Let_def
  by (auto split: prod.splits sum.splits list.splits if_splits IterateType.splits)

lemma iterate_loop_no_error:
  "iterate_loop fuel now t target data s = Some (Inr ((v, c, e), ht, tr)) \<Longrightarrow> e = None"
proof (induction fuel arbitrary: s)
  case 0
  then show ?case by simp
next
  case (Suc fuel)
  show ?case
  proof (cases "iterate_round now t target data s")
    case (Inl p)
    with Suc.prems show ?thesis by simp
  next
    case (Inr r)
    show ?thesis
    proof (cases r)
      case (Inl fin)
      with Inr Suc.prems have "iterate_round now t target data s = Inr (Inl ((v, c, e), ht, tr))"
        by simp
      then show ?thesis by (rule iterate_round_no_error)
    next
      case (Inr s')
      with \<open>iterate_round now t target data s = Inr r\<close> Suc.prems
      have "iterate_loop fuel now t target data s' = Some (Inr ((v, c, e), ht, tr))"
        by simp
      then show ?thesis by (rule Suc.IH)
    qed
  qed
qed

lemma iterate_no_error:
  "iterate fuel tr now ht t target data = Some (Inr ((v, c, e), ht', tr')) \<Longrightarrow> e = None"
  unfolding iterate_def Let_def
  by (auto split: list.splits sum.splits if_splits option.splits dest: iterate_loop_no_error)

lemma dht_iterate_no_error:
  "dht_iterate fuel tr now dht ctx t target data = Some (Inr ((v, c, e), dht', tr')) \<Longrightarrow> e = None"
  unfolding dht_iterate_def
  by (auto split: if_splits option.splits sum.splits dest: iterate_no_error)

text \<open>\<open>iterate\<close> works on the routing table of the context and on the transport: the
  store, the options and the procedures of the DHT are as before.\<close>
lemma dht_iterate_frame:
  "dht_iterate fuel tr now dht ctx t target data = Some (Inr (r, dht', tr')) \<Longrightarrow>
   store dht' = store dht \<and> options dht' = options dht \<and> rpc dht' = rpc dht \<and>
   length (tables dht') = length (tables dht)"
  unfolding dht_iterate_def set_table_def
  by (auto split: if_splits option.splits sum.splits)

subsection \<open>The requests of an iteration\<close>

text \<open>Whatever a call does with the transport, it adds to the record of the calls and
  leaves the network as it is.\<close>
lemma extends_calls_refl: "extends_calls tr tr"
  by (simp add: extends_calls_def)

lemma extends_calls_trans: "extends_calls a b \<Longrightarrow> extends_calls b c \<Longrightarrow> extends_calls a c"
  by (auto simp: extends_calls_def)

lemma extends_calls_SendRequest: "SendRequest tr m = (r, tr') \<Longrightarrow> extends_calls tr tr'"
  by (auto simp: extends_calls_def SendRequest_def)

lemma extends_calls_Cancel: "extends_calls tr (Cancel tr m)"
  by (simp add: extends_calls_def Cancel_def)

lemma addNode_locked_extends_calls:
  "addNode_locked tr ht index n = Inr (ht', tr') \<Longrightarrow> extends_calls tr tr'"
  by (auto simp: addNode_locked_def Let_def SendRequest_def extends_calls_def
      split: if_splits prod.splits option.splits future.splits)

lemma addNode_extends_calls:
  "addNode tr now ht n = Inr (ht', tr') \<Longrightarrow> extends_calls tr tr'"
  by (auto simp: addNode_def extends_calls_refl split: sum.splits dest: addNode_locked_extends_calls)

lemma send_queries_extends_calls:
  "send_queries t origin target qr i rs (cont, rem, futures, tr) = (cont', rem', futures', tr')
   \<Longrightarrow> extends_calls tr tr'"
proof (induction rs arbitrary: i cont rem futures tr)
  case Nil
  then show ?case by (simp add: extends_calls_refl)
next
  case (Cons receiver rest)
  show ?case
  proof (cases "i \<ge> ParallelCalls \<and> \<not> qr")
    case True
    with Cons.prems show ?thesis by (simp add: extends_calls_refl)
  next
    case nostop: False
    show ?thesis
    proof (cases "ID receiver \<in> set cont")
      case True
      with nostop Cons.prems
      have "send_queries t origin target qr (Suc i) rest (cont, rem, futures, tr)
          = (cont', rem', futures', tr')" by (auto split: if_splits)
      then show ?thesis by (rule Cons.IH)
    next
      case False
      define msg where "msg = iterate_request t origin receiver target"
      obtain res err tr1 where sr: "SendRequest tr msg = ((res, err), tr1)"
        by (metis prod.exhaust)
      have e1: "extends_calls tr tr1" using sr by (rule extends_calls_SendRequest)
      have "extends_calls tr1 tr'"
      proof (cases err)
        case None
        with nostop False sr Cons.prems have "send_queries t origin target qr (Suc i) rest
           (ID receiver # cont, rem, futures @ [(msg, res)], tr1) = (cont', rem', futures', tr')"
          by (auto simp: msg_def Let_def split: if_splits)
        then show ?thesis by (rule Cons.IH)
      next
        case (Some e)
        with nostop False sr Cons.prems have "send_queries t origin target qr (Suc i) rest
           (ID receiver # cont, rem @ [Receiver msg], futures, tr1) = (cont', rem', futures', tr')"
          by (auto simp: msg_def Let_def split: if_splits)
        then show ?thesis by (rule Cons.IH)
      qed
      with e1 show ?thesis by (rule extends_calls_trans)
    qed
  qed
qed

lemma await_futures_extends_calls:
  "await_futures now fs (ht, tr) = Inr (results, ht', tr') \<Longrightarrow> extends_calls tr tr'"
proof (induction fs arbitrary: ht tr results)
  case Nil
  then show ?case by (simp add: extends_calls_refl)
next
  case (Cons f fs)
  obtain msg fut where f: "f = (msg, fut)" by (cases f) auto
  show ?case
  proof (cases fut)
    case None
    with f Cons.prems show ?thesis by simp
  next
    case (Some fu)
    show ?thesis
    proof (cases fu)
      case (Reply result)
      with Some f Cons.prems obtain ht1 tr1 results1 where
        a: "addNode tr now ht (NewRouteNode (Sender result)) = Inr (ht1, tr1)" and
        r: "await_futures now fs (ht1, tr1) = Inr (results1, ht', tr')"
        by (auto split: sum.splits)
      from a have "extends_calls tr tr1" by (rule addNode_extends_calls)
      moreover from r have "extends_calls tr1 tr'" by (rule Cons.IH)
      ultimately show ?thesis by (rule extends_calls_trans)
    next
      case Closed
      with Some f Cons.prems have "await_futures now fs (ht, tr) = Inr (results, ht', tr')"
        by simp
      then show ?thesis by (rule Cons.IH)
    next
      case NoReply
      with Some f Cons.prems have "await_futures now fs (ht, Cancel tr msg) = Inr (results, ht', tr')"
        by simp
      then have "extends_calls (Cancel tr msg) tr'" by (rule Cons.IH)
      with extends_calls_Cancel show ?thesis by (rule extends_calls_trans)
    qed
  qed
qed

lemma store_fanout_extends_calls:
  "store_fanout origin data i rs tr = Inr tr' \<Longrightarrow> extends_calls tr tr'"
proof (induction rs arbitrary: i tr)
  case Nil
  then show ?case by (simp add: extends_calls_refl)
next
  case (Cons receiver rest)
  show ?case
  proof (cases "i \<ge> MaxContactsInBucket")
    case True
    with Cons.prems show ?thesis by (simp add: extends_calls_refl)
  next
    case False
    define msg where "msg = store_request origin receiver data"
    obtain res err tr1 where sr: "SendRequest tr msg = ((res, err), tr1)"
      by (metis prod.exhaust)
    with False Cons.prems have "store_fanout origin data (Suc i) rest (Cancel tr1 msg) = Inr tr'"
      by (auto simp: msg_def Let_def split: option.splits)
    then have "extends_calls (Cancel tr1 msg) tr'" by (rule Cons.IH)
    with extends_calls_Cancel have "extends_calls tr1 tr'" by (rule extends_calls_trans)
    with extends_calls_SendRequest [OF sr] show ?thesis by (rule extends_calls_trans)
  qed
qed

lemma iterate_round_after_send:
  assumes round: "iterate_round now t target data s = Inr r"
    and sent: "send_queries t (Origin (table s)) target (queryRest s) 0 (routeSet s)
                 (contacted s, removeFromRouteSet s, [], net s) = (cont, rem, futures, tr1)"
  shows "extends_calls tr1 (round_transport r)"
proof -
  from round sent obtain results ht tr2 where
    aw: "await_futures now futures (table s, tr1) = Inr (results, ht, tr2)"
    unfolding iterate_round_def Let_def by (auto split: sum.splits)
  from aw have e2: "extends_calls tr1 tr2" by (rule await_futures_extends_calls)
  have "extends_calls tr2 (round_transport r)"
    using round sent aw unfolding iterate_round_def Let_def round_transport_def
    by (auto simp: extends_calls_refl simp del: store_fanout.simps
        split: sum.splits list.splits if_splits IterateType.splits
        dest: store_fanout_extends_calls)
  with e2 show ?thesis by (rule extends_calls_trans)
qed

lemma iterate_round_extends_calls:
  assumes "iterate_round now t target data s = Inr r"
  shows "extends_calls (net s) (round_transport r)"
proof -
  obtain cont rem futures tr1 where sent:
    "send_queries t (Origin (table s)) target (queryRest s) 0 (routeSet s)
       (contacted s, removeFromRouteSet s, [], net s) = (cont, rem, futures, tr1)"
    by (metis prod.exhaust)
  from sent have "extends_calls (net s) tr1" by (rule send_queries_extends_calls)
  moreover from assms sent have "extends_calls tr1 (round_transport r)"
    by (rule iterate_round_after_send)
  ultimately show ?thesis by (rule extends_calls_trans)
qed

lemma iterate_loop_extends_calls:
  "iterate_loop fuel now t target data s = Some (Inr (res, ht, tr')) \<Longrightarrow> extends_calls (net s) tr'"
proof (induction fuel arbitrary: s)
  case 0
  then show ?case by simp
next
  case (Suc fuel)
  show ?case
  proof (cases "iterate_round now t target data s")
    case (Inl p)
    with Suc.prems show ?thesis by simp
  next
    case (Inr r)
    then have e: "extends_calls (net s) (round_transport r)" by (rule iterate_round_extends_calls)
    show ?thesis
    proof (cases r)
      case (Inl fin)
      with Inr Suc.prems e show ?thesis by (simp add: round_transport_def)
    next
      case (Inr s')
      with \<open>iterate_round now t target data s = Inr r\<close> Suc.prems
      have "iterate_loop fuel now t target data s' = Some (Inr (res, ht, tr'))" by simp
      then have "extends_calls (net s') tr'" by (rule Suc.IH)
      with e Inr show ?thesis by (auto simp: round_transport_def intro: extends_calls_trans)
    qed
  qed
qed

text \<open>The first request of a round goes to the first node of the route-set, when no
  node was contacted before.\<close>
lemma send_queries_first:
  assumes "send_queries t origin target qr 0 (first # others) ([], rem, [], tr) = (cont, rem', futures, tr1)"
  shows "extends_calls (tr\<lparr>calls := calls tr @ [Requested (iterate_request t origin first target)]\<rparr>) tr1"
proof -
  define msg where "msg = iterate_request t origin first target"
  obtain res err where sr: "SendRequest tr msg = ((res, err), tr\<lparr>calls := calls tr @ [Requested msg]\<rparr>)"
    by (cases "respond tr msg") (simp add: SendRequest_def)
  show ?thesis
  proof (cases err)
    case None
    with assms sr have "send_queries t origin target qr (Suc 0) others
        ([ID first], rem, [(msg, res)], tr\<lparr>calls := calls tr @ [Requested msg]\<rparr>) = (cont, rem', futures, tr1)"
      by (simp add: msg_def Let_def ParallelCalls_def)
    then show ?thesis unfolding msg_def by (rule send_queries_extends_calls)
  next
    case (Some e)
    with assms sr have "send_queries t origin target qr (Suc 0) others
        ([ID first], rem @ [Receiver msg], [], tr\<lparr>calls := calls tr @ [Requested msg]\<rparr>) = (cont, rem', futures, tr1)"
      by (simp add: msg_def Let_def ParallelCalls_def)
    then show ?thesis unfolding msg_def by (rule send_queries_extends_calls)
  qed
qed

lemma iterate_loop_first_request:
  assumes "iterate_loop fuel now t target data s = Some (Inr (res, ht, tr'))"
    and "routeSet s = first # others" and "contacted s = []"
  shows "extends_calls ((net s)\<lparr>calls := calls (net s) @
            [Requested (iterate_request t (Origin (table s)) first target)]\<rparr>) tr'"
proof (cases fuel)
  case 0
  with assms show ?thesis by simp
next
  case (Suc f)
  obtain cont rem futures tr1 where sent:
    "send_queries t (Origin (table s)) target (queryRest s) 0 (routeSet s)
       (contacted s, removeFromRouteSet s, [], net s) = (cont, rem, futures, tr1)"
    by (metis prod.exhaust)
  with assms(2,3) have e1: "extends_calls ((net s)\<lparr>calls := calls (net s) @
            [Requested (iterate_request t (Origin (table s)) first target)]\<rparr>) tr1"
    by (auto intro: send_queries_first)
  show ?thesis
  proof (cases "iterate_round now t target data s")
    case (Inl p)
    with Suc assms(1) show ?thesis by simp
  next
    case (Inr r)
    from Inr sent have e2: "extends_calls tr1 (round_transport r)" by (rule iterate_round_after_send)
    have "extends_calls (round_transport r) tr'"
    proof (cases r)
      case (Inl fin)
      with Inr Suc assms(1) show ?thesis by (simp add: round_transport_def extends_calls_refl)
    next
      case (Inr s')
      with \<open>iterate_round now t target data s = Inr r\<close> Suc assms(1)
      have "iterate_loop f now t target data s' = Some (Inr (res, ht, tr'))" by simp
      then have "extends_calls (net s') tr'" by (rule iterate_loop_extends_calls)
      with Inr show ?thesis by (simp add: round_transport_def)
    qed
    with e1 e2 show ?thesis by (blast intro: extends_calls_trans)
  qed
qed

lemma iterate_first_request:
  assumes "iterate fuel tr now ht t target data = Some (Inr (res, ht', tr'))"
    and "GetClosestContacts ht ParallelCalls target [] = first # others"
    and "t \<noteq> IterateBootstrap"
  shows "extends_calls (tr\<lparr>calls := calls tr @
            [Requested (iterate_request t (Origin ht) first target)]\<rparr>) tr'"
proof -
  from assms have "iterate_loop fuel now t target data
      \<lparr>routeSet = first # others, contacted = [], queryRest = False, closestNode = first,
       removeFromRouteSet = [], table = ht, net = tr\<rparr> = Some (Inr (res, ht', tr'))"
    by (simp add: iterate_def Let_def)
  from iterate_loop_first_request [OF this] show ?thesis by simp
qed

lemma set_table_same: "ctx < length (tables dht) \<Longrightarrow> set_table dht ctx (htFromCtx dht ctx) = dht"
  by (simp add: set_table_def htFromCtx_def)

text \<open>An iterative FindValue on a table with one contact, who answers with a value that
  is not nil: the sender of the answer is added to the table, and the value is what
  \<open>iterate\<close> returns.\<close>
lemma iterate_value_reply:
  assumes "GetClosestContacts ht ParallelCalls target [] = [first]"
    and "respond tr (iterate_request IterateFindValue (Origin ht) first target) = (Some (Reply m), None)"
    and "Error m = None"
    and "Data m = ResponseDataFindValue closest (Some val)"
    and "addNode (tr\<lparr>calls := calls tr @
            [Requested (iterate_request IterateFindValue (Origin ht) first target)]\<rparr>)
           now ht (NewRouteNode (Sender m)) = Inr (ht', tr')"
  shows "iterate (Suc fuel) tr now ht IterateFindValue target data
           = Some (Inr ((Some val, [], None), ht', tr'))"
  using assms
  by (simp add: iterate_def iterate_round_def Let_def SendRequest_def ParallelCalls_def)

lemma dht_iterate_first_request:
  assumes "dht_iterate fuel tr now dht ctx IterateFindValue target data = Some (Inr (res, dht', tr'))"
    and "GetClosestContacts (htFromCtx dht ctx) ParallelCalls target [] = first # others"
  shows "extends_calls (tr\<lparr>calls := calls tr @
            [Requested (iterate_request IterateFindValue (Origin (htFromCtx dht ctx)) first target)]\<rparr>) tr'"
  using assms unfolding dht_iterate_def
  by (auto split: if_splits option.splits sum.splits dest: iterate_first_request)

subsection \<open>Get\<close>

text \<open>Claim C7. Let \<open>kb\<close> be the base58 decoding of the key string. When \<open>kb\<close> is not
  K = 20 bytes long, \<open>Get\<close> returns a nil value, exists = false and the error
  "invalid key", whatever the store holds, and leaves the DHT and the transport as they
  were: the store was not asked and no request was made of the network. When \<open>kb\<close> is
  K bytes long and the store has the key, \<open>Get\<close> returns the stored value with
  exists = true, again without a request. Otherwise \<open>Get\<close> runs the iterative
  FindValue for \<open>kb\<close> and returns its value with exists = true exactly when the value
  is not nil. Of that iteration: with no contact in the routing table it returns nil and
  exists = false, and nothing is sent; with a contact, the first call made of the
  transport is the FindValue request for \<open>kb\<close> to the closest contact, the store is
  left as it is, and no error is returned; and when the one contact answers with a
  value that is not nil, be it empty, \<open>Get\<close> returns that value with exists = true,
  with the sender of the answer added to the routing table.\<close>
theorem Get_cases:
  assumes dec: "base58_Decode ext key = kb"
  shows
  "(length kb \<noteq> MaxContactsInBucket \<longrightarrow>
      Get ext fuel tr now dht ctx key = Some (Inr ((None, False, Some ''invalid key''), dht, tr))) \<and>
   (length kb = MaxContactsInBucket \<and> Retrieve (store dht) kb = (v, True) \<longrightarrow>
      Get ext fuel tr now dht ctx key = Some (Inr ((v, True, None), dht, tr))) \<and>
   (length kb = MaxContactsInBucket \<and> \<not> snd (Retrieve (store dht) kb) \<longrightarrow>
      Get ext fuel tr now dht ctx key =
        map_option (map_sum id (\<lambda>((val, closest, err), dht', tr'). ((val, val \<noteq> None, None), dht', tr')))
          (dht_iterate fuel tr now dht ctx IterateFindValue kb [])) \<and>
   (length kb = MaxContactsInBucket \<and> \<not> snd (Retrieve (store dht) kb) \<and>
    ctx < length (tables dht) \<and>
    GetClosestContacts (htFromCtx dht ctx) ParallelCalls kb [] = [] \<longrightarrow>
      Get ext fuel tr now dht ctx key = Some (Inr ((None, False, None), dht, tr))) \<and>
   (length kb = MaxContactsInBucket \<and> \<not> snd (Retrieve (store dht) kb) \<and>
    GetClosestContacts (htFromCtx dht ctx) ParallelCalls kb [] = first # others \<and>
    Get ext fuel tr now dht ctx key = Some (Inr ((val, exists, err), dht_after, tr_after)) \<longrightarrow>
      respond tr_after = respond tr \<and>
      (\<exists>evs. calls tr_after = calls tr @
         Requested (iterate_request IterateFindValue (Origin (htFromCtx dht ctx)) first kb) # evs) \<and>
      store dht_after = store dht \<and> err = None \<and> exists = (val \<noteq> None)) \<and>
   (length kb = MaxContactsInBucket \<and> \<not> snd (Retrieve (store dht) kb) \<and>
    ctx < length (tables dht) \<and>
    GetClosestContacts (htFromCtx dht ctx) ParallelCalls kb [] = [peer] \<and>
    respond tr (iterate_request IterateFindValue (Origin (htFromCtx dht ctx)) peer kb)
      = (Some (Reply m), None) \<and>
    Error m = None \<and> Data m = ResponseDataFindValue closest (Some found) \<and>
    addNode (tr\<lparr>calls := calls tr @
        [Requested (iterate_request IterateFindValue (Origin (htFromCtx dht ctx)) peer kb)]\<rparr>)
      now (htFromCtx dht ctx) (NewRouteNode (Sender m)) = Inr (ht_added, tr_added) \<and>
    0 < fuel \<longrightarrow>
      Get ext fuel tr now dht ctx key
        = Some (Inr ((Some found, True, None), set_table dht ctx ht_added, tr_added)))"
proof -
  have c1: "length kb \<noteq> MaxContactsInBucket \<longrightarrow>
      Get ext fuel tr now dht ctx key = Some (Inr ((None, False, Some ''invalid key''), dht, tr))"
    using dec by (simp add: Get_def)
  have c2: "length kb = MaxContactsInBucket \<and> Retrieve (store dht) kb = (v, True) \<longrightarrow>
      Get ext fuel tr now dht ctx key = Some (Inr ((v, True, None), dht, tr))"
    using dec by (simp add: Get_def)
  let ?it = "dht_iterate fuel tr now dht ctx IterateFindValue kb []"
  have c3: "length kb = MaxContactsInBucket \<and> \<not> snd (Retrieve (store dht) kb) \<longrightarrow>
      Get ext fuel tr now dht ctx key =
        map_option (map_sum id (\<lambda>((val, closest, err), dht', tr'). ((val, val \<noteq> None, None), dht', tr'))) ?it"
  proof (rule impI)
    assume a: "length kb = MaxContactsInBucket \<and> \<not> snd (Retrieve (store dht) kb)"
    then obtain val0 where r: "Retrieve (store dht) kb = (val0, False)"
      by (cases "Retrieve (store dht) kb") auto
    show "Get ext fuel tr now dht ctx key =
        map_option (map_sum id (\<lambda>((val, closest, err), dht', tr'). ((val, val \<noteq> None, None), dht', tr'))) ?it"
    proof (cases ?it)
      case None
      with a r dec show ?thesis by (simp add: Get_def)
    next
      case (Some res)
      show ?thesis
      proof (cases res)
        case (Inl p)
        with Some a r dec show ?thesis by (simp add: Get_def)
      next
        case (Inr ok)
        obtain val' closest err dht' tr' where ok: "ok = ((val', closest, err), dht', tr')"
          by (cases ok) auto
        with Some Inr have "err = None"
          by (auto dest: dht_iterate_no_error)
        with Some Inr ok a r dec show ?thesis by (simp add: Get_def)
      qed
    qed
  qed
  have c4: "length kb = MaxContactsInBucket \<and> \<not> snd (Retrieve (store dht) kb) \<and>
      ctx < length (tables dht) \<and>
      GetClosestContacts (htFromCtx dht ctx) ParallelCalls kb [] = [] \<longrightarrow>
        Get ext fuel tr now dht ctx key = Some (Inr ((None, False, None), dht, tr))"
  proof (rule impI)
    assume a: "length kb = MaxContactsInBucket \<and> \<not> snd (Retrieve (store dht) kb) \<and>
      ctx < length (tables dht) \<and>
      GetClosestContacts (htFromCtx dht ctx) ParallelCalls kb [] = []"
    then obtain val0 where r: "Retrieve (store dht) kb = (val0, False)"
      by (cases "Retrieve (store dht) kb") auto
    with a dec show "Get ext fuel tr now dht ctx key = Some (Inr ((None, False, None), dht, tr))"
      by (simp add: Get_def dht_iterate_def iterate_def set_table_same)
  qed
  have c5: "length kb = MaxContactsInBucket \<and> \<not> snd (Retrieve (store dht) kb) \<and>
      GetClosestContacts (htFromCtx dht ctx) ParallelCalls kb [] = first # others \<and>
      Get ext fuel tr now dht ctx key = Some (Inr ((val, exists, err), dht_after, tr_after)) \<longrightarrow>
        respond tr_after = respond tr \<and>
        (\<exists>evs. calls tr_after = calls tr @
           Requested (iterate_request IterateFindValue (Origin (htFromCtx dht ctx)) first kb) # evs) \<and>
        store dht_after = store dht \<and> err = None \<and> exists = (val \<noteq> None)"
  proof (rule impI)
    assume a: "length kb = MaxContactsInBucket \<and> \<not> snd (Retrieve (store dht) kb) \<and>
      GetClosestContacts (htFromCtx dht ctx) ParallelCalls kb [] = first # others \<and>
      Get ext fuel tr now dht ctx key = Some (Inr ((val, exists, err), dht_after, tr_after))"
    then obtain val0 where r: "Retrieve (store dht) kb = (val0, False)"
      by (cases "Retrieve (store dht) kb") auto
    from a r dec obtain closest e where
      it: "?it = Some (Inr ((val, closest, e), dht_after, tr_after))"
      and res: "err = None" "exists = (val \<noteq> None)"
      by (auto simp: Get_def split: option.splits sum.splits dest: dht_iterate_no_error)
    from it a have "extends_calls (tr\<lparr>calls := calls tr @
        [Requested (iterate_request IterateFindValue (Origin (htFromCtx dht ctx)) first kb)]\<rparr>) tr_after"
      by (auto dest: dht_iterate_first_request)
    then have "respond tr_after = respond tr \<and>
        (\<exists>evs. calls tr_after = calls tr @
           Requested (iterate_request IterateFindValue (Origin (htFromCtx dht ctx)) first kb) # evs)"
      by (auto simp: extends_calls_def)
    moreover from it have "store dht_after = store dht" by (auto dest: dht_iterate_frame)
    ultimately show "respond tr_after = respond tr \<and>
        (\<exists>evs. calls tr_after = calls tr @
           Requested (iterate_request IterateFindValue (Origin (htFromCtx dht ctx)) first kb) # evs) \<and>
        store dht_after = store dht \<and> err = None \<and> exists = (val \<noteq> None)"
      using res by simp
  qed
  have c6: "length kb = MaxContactsInBucket \<and> \<not> snd (Retrieve (store dht) kb) \<and>
      ctx < length (tables dht) \<and>
      GetClosestContacts (htFromCtx dht ctx) ParallelCalls kb [] = [peer] \<and>
      respond tr (iterate_request IterateFindValue (Origin (htFromCtx dht ctx)) peer kb)
        = (Some (Reply m), None) \<and>
      Error m = None \<and> Data m = ResponseDataFindValue closest (Some found) \<and>
      addNode (tr\<lparr>calls := calls tr @
          [Requested (iterate_request IterateFindValue (Origin (htFromCtx dht ctx)) peer kb)]\<rparr>)
        now (htFromCtx dht ctx) (NewRouteNode (Sender m)) = Inr (ht_added, tr_added) \<and>
      0 < fuel \<longrightarrow>
        Get ext fuel tr now dht ctx key
          = Some (Inr ((Some found, True, None), set_table dht ctx ht_added, tr_added))"
  proof (rule impI)
    assume a: "length kb = MaxContactsInBucket \<and> \<not> snd (Retrieve (store dht) kb) \<and>
      ctx < length (tables dht) \<and>
      GetClosestContacts (htFromCtx dht ctx) ParallelCalls kb [] = [peer] \<and>
      respond tr (iterate_request IterateFindValue (Origin (htFromCtx dht ctx)) peer kb)
        = (Some (Reply m), None) \<and>
      Error m = None \<and> Data m = ResponseDataFindValue closest (Some found) \<and>
      addNode (tr\<lparr>calls := calls tr @
          [Requested (iterate_request IterateFindValue (Origin (htFromCtx dht ctx)) peer kb)]\<rparr>)
        now (htFromCtx dht ctx) (NewRouteNode (Sender m)) = Inr (ht_added, tr_added) \<and>
      0 < fuel"
    then obtain val0 where r: "Retrieve (store dht) kb = (val0, False)"
      by (cases "Retrieve (store dht) kb") auto
    from a obtain f where f: "fuel = Suc f" by (cases fuel) auto
    from a have h1: "GetClosestContacts (htFromCtx dht ctx) ParallelCalls kb [] = [peer]"
      and h2: "respond tr (iterate_request IterateFindValue (Origin (htFromCtx dht ctx)) peer kb)
        = (Some (Reply m), None)"
      and h3: "Error m = None" and h4: "Data m = ResponseDataFindValue closest (Some found)"
      and h5: "addNode (tr\<lparr>calls := calls tr @
          [Requested (iterate_request IterateFindValue (Origin (htFromCtx dht ctx)) peer kb)]\<rparr>)
        now (htFromCtx dht ctx) (NewRouteNode (Sender m)) = Inr (ht_added, tr_added)"
      by simp_all
    have "iterate (Suc f) tr now (htFromCtx dht ctx) IterateFindValue kb []
             = Some (Inr ((Some found, [], None), ht_added, tr_added))"
      using h1 h2 h3 h4 h5 by (rule iterate_value_reply)
    with a r dec f show "Get ext fuel tr now dht ctx key
          = Some (Inr ((Some found, True, None), set_table dht ctx ht_added, tr_added))"
      by (simp add: Get_def dht_iterate_def)
  qed
  from c1 c2 c3 c4 c5 c6 show ?thesis by (intro conjI)
qed

text \<open>The cases at work. The key string \<open>abc\<close> decodes to three bytes. The node that
  holds \<open>example_data\<close> serves it. The node that knows nobody finds nothing and sends
  nothing. The node that knows one peer asks it: the peer's value is returned, also
  when it is empty; and when the peer has no value either, nothing is found. In each
  run with a peer the one call made of the transport is the FindValue request, and
  the peer is marked as seen at the time of the call.\<close>
theorem Get_cases_witness:
  "(base58_Decode example_externals ''abc'' = [1, 185, 123] \<and>
    length [1, 185, 123 :: byte] \<noteq> MaxContactsInBucket \<and>
    Get example_externals 2 answering_transport 0 example_stored_dht 0 ''abc''
      = Some (Inr ((None, False, Some ''invalid key''), example_stored_dht, answering_transport))) \<and>
   (base58_Decode example_externals (b58_encode example_key) = example_key \<and>
    length example_key = MaxContactsInBucket \<and>
    Retrieve (store example_stored_dht) example_key = (Some example_data, True) \<and>
    Get example_externals 2 answering_transport 0 example_stored_dht 0 (b58_encode example_key)
      = Some (Inr ((Some example_data, True, None), example_stored_dht, answering_transport))) \<and>
   (\<not> snd (Retrieve (store example_empty_dht) example_key) \<and>
    0 < length (tables example_empty_dht) \<and>
    GetClosestContacts (htFromCtx example_empty_dht 0) ParallelCalls example_key [] = [] \<and>
    Get example_externals 2 answering_transport 0 example_empty_dht 0 (b58_encode example_key)
      = Some (Inr ((None, False, None), example_empty_dht, answering_transport))) \<and>
   (\<not> snd (Retrieve (store example_single_dht) example_key) \<and>
    0 < length (tables example_single_dht) \<and>
    GetClosestContacts (htFromCtx example_single_dht 0) ParallelCalls example_key []
      = [Node (example_peer 0)] \<and>
    respond (value_transport [1, 2, 3]) example_find_value
      = (Some (Reply (value_answer [1, 2, 3] example_find_value)), None) \<and>
    Get example_externals 1 (value_transport [1, 2, 3]) 7 example_single_dht 0 (b58_encode example_key)
      = Some (Inr ((Some [1, 2, 3], True, None),
                   example_single_dht\<lparr>tables := [example_seen_table 7]\<rparr>,
                   (value_transport [1, 2, 3])\<lparr>calls := [Requested example_find_value]\<rparr>))) \<and>
   (respond (value_transport []) example_find_value
      = (Some (Reply (value_answer [] example_find_value)), None) \<and>
    Get example_externals 1 (value_transport []) 7 example_single_dht 0 (b58_encode example_key)
      = Some (Inr ((Some [], True, None),
                   example_single_dht\<lparr>tables := [example_seen_table 7]\<rparr>,
                   (value_transport [])\<lparr>calls := [Requested example_find_value]\<rparr>))) \<and>
   (map_option (map_sum id (\<lambda>(r, dht', tr'). (r, tables dht', calls tr')))
      (Get example_externals 2 answering_transport 7 example_single_dht 0 (b58_encode example_key))
      = Some (Inr ((None, False, None), [example_seen_table 7], [Requested example_find_value])))"
proof -
  have d1: "base58_Decode example_externals ''abc'' = [1, 185, 123]"
    by code_simp
  have d2: "base58_Decode example_externals (b58_encode example_key) = example_key"
    by code_simp
  have l1: "length [1, 185, 123 :: byte] \<noteq> MaxContactsInBucket"
    by (simp add: MaxContactsInBucket_def)
  have l2: "length example_key = MaxContactsInBucket"
    by code_simp
  have r2: "Retrieve (store example_stored_dht) example_key = (Some example_data, True)"
    by code_simp
  have r3: "\<not> snd (Retrieve (store example_empty_dht) example_key)"
    by code_simp
  have r4: "\<not> snd (Retrieve (store example_single_dht) example_key)"
    by code_simp
  have t3: "0 < length (tables example_empty_dht)"
    by code_simp
  have t4: "0 < length (tables example_single_dht)"
    by code_simp
  have g3: "GetClosestContacts (htFromCtx example_empty_dht 0) ParallelCalls example_key [] = []"
    by code_simp
  have g4: "GetClosestContacts (htFromCtx example_single_dht 0) ParallelCalls example_key []
      = [Node (example_peer 0)]"
    by code_simp
  have h4: "htFromCtx example_single_dht 0 = example_single_table"
    by code_simp
  have o4: "Origin example_single_table = example_origin"
    by code_simp
  have req: "iterate_request IterateFindValue (Origin (htFromCtx example_single_dht 0))
      (Node (example_peer 0)) example_key = example_find_value"
    by (simp add: h4 o4 example_find_value_def)
  have rp: "respond (value_transport val) example_find_value
      = (Some (Reply (value_answer val example_find_value)), None)" for val
    by (simp add: value_transport_def)
  have ans: "Error (value_answer val example_find_value) = None"
    "Data (value_answer val example_find_value) = ResponseDataFindValue [] (Some val)"
    "Sender (value_answer val example_find_value) = Node (example_peer 0)" for val
    by (simp_all add: value_answer_def example_find_value_def iterate_request_def)
  have test: "addNode_test 7 example_single_table (NewRouteNode (Node (example_peer 0)))
      = Inr (Inl (example_seen_table 7))"
    by code_simp
  have add: "addNode tr 7 (htFromCtx example_single_dht 0)
      (NewRouteNode (Sender (value_answer val example_find_value))) = Inr (example_seen_table 7, tr)"
    for tr val
    by (simp add: addNode_def h4 ans test)
  have st: "set_table example_single_dht 0 (example_seen_table 7)
      = example_single_dht\<lparr>tables := [example_seen_table 7]\<rparr>"
    by (simp add: set_table_def example_single_dht_def)
  have sent: "(value_transport val)\<lparr>calls := calls (value_transport val) @ [Requested example_find_value]\<rparr>
      = (value_transport val)\<lparr>calls := [Requested example_find_value]\<rparr>" for val
    by (simp add: value_transport_def)
  from Get_cases [OF d1, where dht = example_stored_dht and ctx = 0 and fuel = 2
      and tr = answering_transport and now = 0] l1
  have A: "Get example_externals 2 answering_transport 0 example_stored_dht 0 ''abc''
      = Some (Inr ((None, False, Some ''invalid key''), example_stored_dht, answering_transport))"
    by blast
  from Get_cases [OF d2, where dht = example_stored_dht and ctx = 0 and fuel = 2
      and tr = answering_transport and now = 0 and v = "Some example_data"] l2 r2
  have B: "Get example_externals 2 answering_transport 0 example_stored_dht 0 (b58_encode example_key)
      = Some (Inr ((Some example_data, True, None), example_stored_dht, answering_transport))"
    by blast
  from Get_cases [OF d2, where dht = example_empty_dht and ctx = 0 and fuel = 2
      and tr = answering_transport and now = 0] l2 r3 t3 g3
  have C: "Get example_externals 2 answering_transport 0 example_empty_dht 0 (b58_encode example_key)
      = Some (Inr ((None, False, None), example_empty_dht, answering_transport))"
    by blast
  have D: "Get example_externals 1 (value_transport val) 7 example_single_dht 0 (b58_encode example_key)
      = Some (Inr ((Some val, True, None),
                   example_single_dht\<lparr>tables := [example_seen_table 7]\<rparr>,
                   (value_transport val)\<lparr>calls := [Requested example_find_value]\<rparr>))" for val
  proof -
    have fuel: "0 < (1 :: nat)"
      by simp
    have rp': "respond (value_transport val)
        (iterate_request IterateFindValue (Origin (htFromCtx example_single_dht 0))
           (Node (example_peer 0)) example_key)
        = (Some (Reply (value_answer val example_find_value)), None)"
      unfolding req by (rule rp)
    have add': "addNode ((value_transport val)\<lparr>calls := calls (value_transport val) @
          [Requested (iterate_request IterateFindValue (Origin (htFromCtx example_single_dht 0))
             (Node (example_peer 0)) example_key)]\<rparr>)
        7 (htFromCtx example_single_dht 0) (NewRouteNode (Sender (value_answer val example_find_value)))
        = Inr (example_seen_table 7,
               (value_transport val)\<lparr>calls := calls (value_transport val) @
                 [Requested example_find_value]\<rparr>)"
      unfolding req by (rule add)
    from Get_cases [OF d2, where dht = example_single_dht and ctx = 0 and fuel = 1
      and tr = "value_transport val" and now = 7 and peer = "Node (example_peer 0)"
      and m = "value_answer val example_find_value" and closest = "[]" and found = val
      and ht_added = "example_seen_table 7"
      and tr_added = "(value_transport val)\<lparr>calls := calls (value_transport val) @
            [Requested example_find_value]\<rparr>"]
      l2 r4 t4 g4 rp' ans(1,2) [of val] add' fuel
    have "Get example_externals 1 (value_transport val) 7 example_single_dht 0 (b58_encode example_key)
      = Some (Inr ((Some val, True, None), set_table example_single_dht 0 (example_seen_table 7),
                   (value_transport val)\<lparr>calls := calls (value_transport val) @
                     [Requested example_find_value]\<rparr>))"
      by blast
    then show ?thesis
      by (simp only: st sent)
  qed
  have c3: "map_option (map_sum id (\<lambda>(r, dht', tr'). (r, tables dht', calls tr')))
      (map_option (map_sum id (\<lambda>((val, closest, err), dht', tr').
           ((val, val \<noteq> None, None :: string option), dht', tr')))
         (dht_iterate 2 answering_transport 7 example_single_dht 0 IterateFindValue example_key []))
      = Some (Inr ((None, False, None), [example_seen_table 7], [Requested example_find_value]))"
    by code_simp
  from Get_cases [OF d2, where dht = example_single_dht and ctx = 0 and fuel = 2
      and tr = answering_transport and now = 7] l2 r4
  have "Get example_externals 2 answering_transport 7 example_single_dht 0 (b58_encode example_key)
      = map_option (map_sum id (\<lambda>((val, closest, err), dht', tr'). ((val, val \<noteq> None, None), dht', tr')))
         (dht_iterate 2 answering_transport 7 example_single_dht 0 IterateFindValue example_key [])"
    by blast
  with c3 have E: "map_option (map_sum id (\<lambda>(r, dht', tr'). (r, tables dht', calls tr')))
      (Get example_externals 2 answering_transport 7 example_single_dht 0 (b58_encode example_key))
      = Some (Inr ((None, False, None), [example_seen_table 7], [Requested example_find_value]))"
    by simp
  from d1 l1 A d2 l2 r2 B r3 t3 g3 C r4 t4 g4 rp [of "[1, 2, 3]"] D [of "[1, 2, 3]"]
    rp [of "[]"] D [of "[]"] E
  show ?thesis by (intro conjI)
qed

subsection \<open>The base58 codec of the examples loses nothing\<close>

lemma be_int_snoc: "be_int (bs @ [b]) = be_int bs * 256 + uint b"
  by (simp add: be_int_def)

lemma be_int_nonneg: "0 \<le> be_int bs"
  by (induction bs rule: rev_induct) (simp_all add: be_int_def)

lemma be_int_zero_iff: "be_int bs = 0 \<longleftrightarrow> (\<forall>b \<in> set bs. b = 0)"
proof (induction bs rule: rev_induct)
  case Nil
  then show ?case by (simp add: be_int_def)
next
  case (snoc b bs)
  have "0 \<le> be_int bs" "0 \<le> uint b"
    by (simp_all add: be_int_nonneg)
  then have "be_int bs * 256 + uint b = 0 \<longleftrightarrow> be_int bs = 0 \<and> uint b = 0"
    by linarith
  with snoc show ?case
    by (auto simp: be_int_snoc uint_0_iff)
qed

lemma uint_byte_less: "uint (b :: byte) < 256"
  using uint_bounded [of b] by simp

lemma int_bytes_step:
  assumes "0 \<le> n" and "0 < n \<or> b \<noteq> 0"
  shows "int_bytes (n * 256 + uint (b :: byte)) = int_bytes n @ [b]"
proof -
  have u: "0 \<le> uint b" "uint b < 256"
    by (simp_all add: uint_byte_less)
  have "b \<noteq> 0 \<Longrightarrow> uint b \<noteq> 0"
    by (simp add: uint_0_iff)
  with assms u(1) have pos: "0 < n * 256 + uint b"
    by (cases "0 < n") linarith+
  have d: "(n * 256 + uint b) div 256 = n"
    using u by simp
  have m: "(n * 256 + uint b) mod 256 = uint b"
    using u by simp
  have m': "uint b mod 256 = uint b"
    using u by simp
  from pos show ?thesis
    by (subst int_bytes.simps) (simp add: d m m')
qed

lemma int_bytes_zero: "int_bytes 0 = []"
  by (subst int_bytes.simps) simp

lemma int_bytes_be_int: "int_bytes (be_int bs) = dropWhile (\<lambda>b. b = 0) bs"
proof (induction bs rule: rev_induct)
  case Nil
  then show ?case by (simp add: be_int_def int_bytes_zero)
next
  case (snoc b bs)
  show ?case
  proof (cases "be_int bs = 0 \<and> b = 0")
    case True
    then have "\<forall>x \<in> set (bs @ [b]). x = 0"
      by (simp add: be_int_zero_iff)
    then have "dropWhile (\<lambda>b. b = 0) (bs @ [b]) = []"
      by simp
    with True show ?thesis
      by (simp add: be_int_snoc int_bytes_zero)
  next
    case False
    then have c: "0 < be_int bs \<or> b \<noteq> 0"
      using be_int_nonneg [of bs] by auto
    have "int_bytes (be_int (bs @ [b])) = dropWhile (\<lambda>b. b = 0) bs @ [b]"
      unfolding be_int_snoc using int_bytes_step [OF be_int_nonneg c] snoc.IH by simp
    also have "\<dots> = dropWhile (\<lambda>b. b = 0) (bs @ [b])"
    proof (cases "\<forall>x \<in> set bs. x = 0")
      case True
      then have "be_int bs = 0" by (simp add: be_int_zero_iff)
      with c have "b \<noteq> 0" by simp
      with True show ?thesis by simp
    next
      case False
      then show ?thesis by auto
    qed
    finally show ?thesis .
  qed
qed
lemma b58_digits_nonpos: "n \<le> 0 \<Longrightarrow> b58_digits n = []"
  by (subst b58_digits.simps) simp

lemma b58_digits_pos: "0 < n \<Longrightarrow> b58_digits n = b58_digits (n div 58) @ [n mod 58]"
  by (subst b58_digits.simps) simp

lemma b58_digits_range: "d \<in> set (b58_digits n) \<Longrightarrow> 0 \<le> d \<and> d < 58"
proof (induction n rule: b58_digits.induct)
  case (1 n)
  show ?case
  proof (cases "n \<le> 0")
    case True
    with "1.prems" show ?thesis by (simp add: b58_digits_nonpos)
  next
    case False
    with "1.prems" have "d \<in> set (b58_digits (n div 58)) \<or> d = n mod 58"
      by (auto simp: b58_digits_pos)
    with False "1.IH" show ?thesis by auto
  qed
qed

lemma length_b58_alphabet: "length b58_alphabet = 58"
  by (simp add: b58_alphabet_def)

lemma b58_index_table:
  "map (\<lambda>k. b58_index (b58_alphabet ! k) b58_alphabet) [0..<58] = map int [0..<58]"
  by code_simp

lemma b58_index_nth:
  assumes "0 \<le> d" and "d < 58"
  shows "b58_index (b58_alphabet ! nat d) b58_alphabet = d"
proof -
  have k: "nat d < 58" using assms by simp
  then have "map (\<lambda>k. b58_index (b58_alphabet ! k) b58_alphabet) [0..<58] ! nat d
      = b58_index (b58_alphabet ! nat d) b58_alphabet"
    by simp
  moreover from k have "map int [0..<58] ! nat d = int (nat d)"
    by simp
  ultimately show ?thesis
    using assms b58_index_table by simp
qed

lemma b58_index_one: "b58_index (CHR ''1'') b58_alphabet = 0"
  by (simp add: b58_alphabet_def)

lemma b58_char_in_alphabet: "0 \<le> d \<Longrightarrow> d < 58 \<Longrightarrow> b58_alphabet ! nat d \<in> set b58_alphabet"
  by (simp add: length_b58_alphabet)

lemma b58_char_not_one:
  assumes "0 < d" and "d < 58"
  shows "b58_alphabet ! nat d \<noteq> CHR ''1''"
proof
  assume "b58_alphabet ! nat d = CHR ''1''"
  then have "b58_index (b58_alphabet ! nat d) b58_alphabet = 0"
    by (simp add: b58_index_one)
  with b58_index_nth [of d] assms show False by simp
qed

text \<open>The digits of a number give the number back.\<close>
lemma b58_value_digits:
  "0 \<le> n \<Longrightarrow>
   foldl (\<lambda>acc c. acc * 58 + b58_index c b58_alphabet) 0
     (map (\<lambda>d. b58_alphabet ! nat d) (b58_digits n)) = n"
proof (induction n rule: b58_digits.induct)
  case (1 n)
  show ?case
  proof (cases "n \<le> 0")
    case True
    with "1.prems" show ?thesis by (simp add: b58_digits_nonpos)
  next
    case False
    then have "0 \<le> n div 58" by simp
    with False "1.IH" have ih:
      "foldl (\<lambda>acc c. acc * 58 + b58_index c b58_alphabet) 0
         (map (\<lambda>d. b58_alphabet ! nat d) (b58_digits (n div 58))) = n div 58"
      by simp
    have m: "0 \<le> n mod 58" "n mod 58 < 58"
      by simp_all
    have d: "b58_digits n = b58_digits (n div 58) @ [n mod 58]"
      using False by (simp add: b58_digits_pos)
    show ?thesis
      unfolding d by (simp add: ih b58_index_nth [OF m])
  qed
qed

lemma b58_value_leading_ones:
  "foldl (\<lambda>acc c. acc * 58 + b58_index c b58_alphabet) 0 (replicate z (CHR ''1'') @ s)
     = foldl (\<lambda>acc c. acc * 58 + b58_index c b58_alphabet) 0 s"
  by (induction z) (simp_all add: b58_index_one)

text \<open>The first digit of a positive number is not zero.\<close>
lemma b58_digits_head:
  "0 < n \<Longrightarrow> \<exists>d ds. b58_digits n = d # ds \<and> 0 < d \<and> d < 58"
proof (induction n rule: b58_digits.induct)
  case (1 n)
  then have pos: "\<not> n \<le> 0" by simp
  have d: "b58_digits n = b58_digits (n div 58) @ [n mod 58]"
    using pos by (simp add: b58_digits_pos)
  show ?case
  proof (cases "0 < n div 58")
    case True
    with pos "1.IH" obtain x xs where "b58_digits (n div 58) = x # xs" "0 < x" "x < 58"
      by blast
    with d show ?thesis by simp
  next
    case False
    then have small: "n div 58 = 0"
      using pos by (simp add: pos_imp_zdiv_nonneg_iff order_antisym)
    then have "b58_digits (n div 58) = []" by (simp add: b58_digits_nonpos)
    moreover from small pos have "n mod 58 = n"
      by (metis add.left_neutral mult_zero_right mult_div_mod_eq)
    moreover from small pos have "n < 58"
      by (simp add: zdiv_eq_0_iff)
    ultimately show ?thesis using d pos by simp
  qed
qed

lemma takeWhile_replicate_append:
  "takeWhile (\<lambda>c. c = a) (replicate z a @ s) = replicate z a @ takeWhile (\<lambda>c. c = a) s"
  by (induction z) simp_all

lemma b58_leading_ones:
  "0 \<le> n \<Longrightarrow>
   takeWhile (\<lambda>c. c = CHR ''1'')
     (replicate z (CHR ''1'') @ map (\<lambda>d. b58_alphabet ! nat d) (b58_digits n))
   = replicate z (CHR ''1'')"
proof (cases "0 < n")
  case True
  then obtain d ds where "b58_digits n = d # ds" "0 < d" "d < 58"
    using b58_digits_head by blast
  then show ?thesis
    by (simp add: takeWhile_replicate_append b58_char_not_one)
next
  case False
  assume "0 \<le> n"
  with False have "n = 0" by simp
  then show ?thesis by (simp add: takeWhile_replicate_append b58_digits_nonpos)
qed

lemma replicate_takeWhile_zero:
  "replicate (length (takeWhile (\<lambda>b. b = (0::byte)) bs)) 0 = takeWhile (\<lambda>b. b = 0) bs"
  by (induction bs) simp_all

text \<open>Decoding what was encoded gives the bytes back, for every byte string.\<close>
lemma b58_decode_encode: "b58_decode (b58_encode bs) = bs"
proof -
  let ?z = "length (takeWhile (\<lambda>b. b = 0) bs)"
  let ?digits = "map (\<lambda>d. b58_alphabet ! nat d) (b58_digits (be_int bs))"
  have enc: "b58_encode bs = replicate ?z (CHR ''1'') @ ?digits"
    by (simp add: b58_encode_def)
  have "CHR ''1'' \<in> set b58_alphabet"
    by (simp add: b58_alphabet_def)
  moreover have "\<forall>c \<in> set ?digits. c \<in> set b58_alphabet"
    using b58_digits_range b58_char_in_alphabet by auto
  ultimately have ok: "list_all (\<lambda>c. c \<in> set b58_alphabet) (b58_encode bs)"
    unfolding enc by (auto simp: list_all_iff)
  have ones: "takeWhile (\<lambda>c. c = CHR ''1'') (b58_encode bs) = replicate ?z (CHR ''1'')"
    unfolding enc using be_int_nonneg by (rule b58_leading_ones)
  have val: "foldl (\<lambda>acc c. acc * 58 + b58_index c b58_alphabet) 0 (b58_encode bs) = be_int bs"
    unfolding enc b58_value_leading_ones using be_int_nonneg by (rule b58_value_digits)
  have "b58_decode (b58_encode bs) = replicate ?z 0 @ int_bytes (be_int bs)"
    unfolding b58_decode_def using ok by (simp add: ones val)
  also have "\<dots> = takeWhile (\<lambda>b. b = 0) bs @ dropWhile (\<lambda>b. b = 0) bs"
    by (simp only: replicate_takeWhile_zero int_bytes_be_int)
  finally show ?thesis by simp
qed

text \<open>So with this codec the identifier that \<open>Store\<close> returns always decodes to the
  key, whatever the key.\<close>
lemma b58_externals_roundtrip:
  "base58_Encode ext = b58_encode \<Longrightarrow> base58_Decode ext = b58_decode \<Longrightarrow>
   base58_Decode ext (base58_Encode ext key) = key"
  by (simp add: b58_decode_encode)

subsection \<open>Store, then Get\<close>

lemma Retrieve_store_Store:
  "Retrieve (fst (store_Store st key data replication expiration publisher)) key = (Some data, True)"
  by (simp add: Retrieve_def store_Store_def)

lemma Retrieve_ExpireKeys_store_Store:
  "t < expiration \<Longrightarrow>
   Retrieve (ExpireKeys t (fst (store_Store st key data replication expiration publisher))) key
     = (Some data, True)"
  by (simp add: Retrieve_def store_Store_def ExpireKeys_def)

text \<open>What a successful \<open>Store\<close> leaves: the identifier is the base58 form of the key,
  and the store holds the data under the key with the computed deadline.\<close>
lemma Store_success:
  assumes "Store ext fuel tr now dht ctx data = Some (Inr ((k, None), dht', tr'))"
  shows "\<exists>expiration. getExpirationTime now dht ctx (NewKey ext data) = Inr expiration \<and>
           k = base58_Encode ext (NewKey ext data) \<and>
           store dht' = fst (store_Store (store dht) (NewKey ext data) data
                               (Add now (ReplicateTime (options dht))) expiration True)"
proof -
  obtain expiration where e: "getExpirationTime now dht ctx (NewKey ext data) = Inr expiration"
    using assms by (cases "getExpirationTime now dht ctx (NewKey ext data)") (auto simp: Store_def Let_def)
  let ?st = "fst (store_Store (store dht) (NewKey ext data) data
                    (Add now (ReplicateTime (options dht))) expiration True)"
  let ?it = "dht_iterate fuel tr now (dht\<lparr>store := ?st\<rparr>) ctx IterateStore (NewKey ext data) data"
  from assms e obtain v c err where it: "?it = Some (Inr ((v, c, err), dht', tr'))"
    and k: "k = base58_Encode ext (NewKey ext data)"
    by (auto simp: Store_def Let_def store_Store_def split: option.splits sum.splits)
  from dht_iterate_frame [OF it] have "store dht' = ?st"
    by simp
  with e k show ?thesis by blast
qed

text \<open>Claim C6. When \<open>Store(data)\<close> has returned an identifier \<open>k\<close> without error, and the
  key is K bytes long and survives base58 encoding and decoding, then \<open>Get(k)\<close> on the
  node as \<open>Store\<close> left it returns the data, exists = true and no error, without a
  request to the network; and so it does after an expiration sweep at any time before
  the deadline that \<open>Store\<close> computed for the entry.\<close>
theorem Store_then_Get:
  assumes stored: "Store ext fuel tr now dht ctx data = Some (Inr ((k, None), dht', tr'))"
    and roundtrip: "base58_Decode ext (base58_Encode ext (NewKey ext data)) = NewKey ext data"
    and key_length: "length (NewKey ext data) = MaxContactsInBucket"
  shows "Get ext fuel2 tr2 now2 dht' ctx2 k = Some (Inr ((Some data, True, None), dht', tr2)) \<and>
         (\<forall>t deadline.
            getExpirationTime now dht ctx (NewKey ext data) = Inr deadline \<and> t < deadline \<longrightarrow>
            Get ext fuel2 tr2 now2 (dht'\<lparr>store := ExpireKeys t (store dht')\<rparr>) ctx2 k
              = Some (Inr ((Some data, True, None), dht'\<lparr>store := ExpireKeys t (store dht')\<rparr>, tr2)))"
proof -
  from Store_success [OF stored] obtain expiration where
    e: "getExpirationTime now dht ctx (NewKey ext data) = Inr expiration" and
    k: "k = base58_Encode ext (NewKey ext data)" and
    st: "store dht' = fst (store_Store (store dht) (NewKey ext data) data
                             (Add now (ReplicateTime (options dht))) expiration True)"
    by blast
  have dec: "base58_Decode ext k = NewKey ext data"
    using k roundtrip by simp
  have "Retrieve (store dht') (NewKey ext data) = (Some data, True)"
    unfolding st by (rule Retrieve_store_Store)
  with dec key_length
  have now_: "Get ext fuel2 tr2 now2 dht' ctx2 k = Some (Inr ((Some data, True, None), dht', tr2))"
    by (simp add: Get_def)
  have later: "Get ext fuel2 tr2 now2 (dht'\<lparr>store := ExpireKeys t (store dht')\<rparr>) ctx2 k
              = Some (Inr ((Some data, True, None), dht'\<lparr>store := ExpireKeys t (store dht')\<rparr>, tr2))"
    if "getExpirationTime now dht ctx (NewKey ext data) = Inr deadline" and "t < deadline"
    for t deadline
  proof -
    from that e have "t < expiration" by simp
    then have "Retrieve (ExpireKeys t (store dht')) (NewKey ext data) = (Some data, True)"
      unfolding st by (rule Retrieve_ExpireKeys_store_Store)
    with dec key_length show ?thesis
      by (simp add: Get_def)
  qed
  from now_ later show ?thesis by blast
qed

text \<open>The node with one peer stores \<open>example_data\<close>: the peer answers the query, the
  Store request goes out, and \<open>Get\<close> of the returned identifier finds the data.\<close>
theorem Store_then_Get_witness:
  "\<exists>dht' tr'.
     Store example_externals 1 answering_transport 0 example_single_dht 0 example_data
       = Some (Inr ((b58_encode (NewKey example_externals example_data), None), dht', tr')) \<and>
     base58_Decode example_externals (base58_Encode example_externals (NewKey example_externals example_data))
       = NewKey example_externals example_data \<and>
     length (NewKey example_externals example_data) = MaxContactsInBucket \<and>
     Get example_externals 0 silent_transport 1000000000 dht' 0
         (b58_encode (NewKey example_externals example_data))
       = Some (Inr ((Some example_data, True, None), dht', silent_transport))"
proof -
  let ?k = "b58_encode (NewKey example_externals example_data)"
  let ?run = "Store example_externals 1 answering_transport 0 example_single_dht 0 example_data"
  have "map_option (map_sum id fst) ?run = Some (Inr (?k, None))"
    by code_simp
  then obtain dht' tr' where stored: "?run = Some (Inr ((?k, None), dht', tr'))"
    by (cases ?run) (auto simp: map_sum_def split: sum.splits)
  have roundtrip: "base58_Decode example_externals
      (base58_Encode example_externals (NewKey example_externals example_data))
       = NewKey example_externals example_data"
    by code_simp
  have key_length: "length (NewKey example_externals example_data) = MaxContactsInBucket"
    by code_simp
  from Store_then_Get [OF stored roundtrip key_length, of 0 silent_transport 1000000000 0]
    stored roundtrip key_length
  show ?thesis by blast
qed

subsection \<open>Bootstrap without bootstrap nodes\<close>

text \<open>Claim C10. With an empty list of bootstrap nodes, \<open>Bootstrap\<close> returns nil at
  once: the DHT, with the routing table of every identity, is as before, and so is the
  transport, of which no call was made (no request sent, no future made or cancelled,
  no iteration run).\<close>
theorem Bootstrap_no_nodes:
  "BootstrapNodes (options dht) = [] \<Longrightarrow> Bootstrap fuel tr now dht = Some (Inr (None, dht, tr))"
  by (simp add: Bootstrap_def)

theorem Bootstrap_no_nodes_witness:
  "BootstrapNodes (options example_single_dht) = [] \<and>
   Bootstrap 0 answering_transport 0 example_single_dht
     = Some (Inr (None, example_single_dht, answering_transport))"
proof -
  have h: "BootstrapNodes (options example_single_dht) = []"
    by code_simp
  from Bootstrap_no_nodes [OF h, of 0 answering_transport 0] h show ?thesis
    by simp
qed

text \<open>With a bootstrap node the same call does reach the network: the node known by
  address is pinged, and the ping that is not answered is cancelled.\<close>
lemma Bootstrap_with_seed:
  "map_option (map_sum id (\<lambda>(err, dht, tr). (err, calls tr)))
     (Bootstrap 0 silent_transport 0 (example_seeded_dht\<lparr>tables := [example_empty_table]\<rparr>))
   = Some (Inr (None,
       [Requested (NewPingMessage example_origin example_seed),
        Cancelled (NewPingMessage example_origin example_seed)]))"
  by code_simp

subsection \<open>The handlers and the sender of a request\<close>

text \<open>The handlers of FindNode, FindValue, Store and RPC requests add the sender first:
  when they complete, \<open>addNode\<close> has completed, and the routing tables are those it
  left.\<close>
lemma processFindNode_adds_sender:
  "processFindNode tr now dht ctx msg = Inr (dht', tr') \<Longrightarrow>
   \<exists>tr1. dht_addNode tr now dht ctx (NewRouteNode (Sender msg)) = Inr (dht', tr1)"
  by (auto simp: processFindNode_def Let_def split: payload.splits sum.splits)

lemma processFindValue_adds_sender:
  "processFindValue tr now dht ctx msg = Inr (dht', tr') \<Longrightarrow>
   \<exists>tr1. dht_addNode tr now dht ctx (NewRouteNode (Sender msg)) = Inr (dht', tr1)"
  by (auto simp: processFindValue_def Let_def split: payload.splits sum.splits)

lemma processRPC_adds_sender:
  "processRPC tr now dht ctx msg = Inr (dht', tr') \<Longrightarrow>
   \<exists>tr1. dht_addNode tr now dht ctx (NewRouteNode (Sender msg)) = Inr (dht', tr1)"
  by (auto simp: processRPC_def Let_def split: payload.splits sum.splits)

lemma processStore_adds_sender:
  "processStore ext tr now dht ctx msg = Inr (dht', tr') \<Longrightarrow>
   \<exists>dht1. dht_addNode tr now dht ctx (NewRouteNode (Sender msg)) = Inr (dht1, tr') \<and>
          tables dht' = tables dht1"
  by (auto simp: processStore_def Let_def split: payload.splits sum.splits prod.splits)

text \<open>Claim C9. The handler of a Ping request makes one call of the transport, the
  response with the request-ID of the inbound message and no payload, and returns the
  DHT as it was: routing tables and store unchanged, the sender not added. Each of the
  other handlers, when it completes, has added the sender to the routing table.\<close>
theorem processPing_only_replies:
  "(ctx < length (tables dht) \<and> Type msg = TypePing \<longrightarrow>
      dispatch ext tr now dht ctx msg =
        Inr (dht, tr\<lparr>calls := calls tr @
               [Responded (RequestID msg)
                  \<lparr>Sender = Origin (htFromCtx dht ctx), Receiver = Sender msg, Type = TypePing,
                   RequestID = [], Data = NoData, Error = None, IsResponse = True\<rparr>]\<rparr>)) \<and>
   (Type msg \<noteq> TypePing \<and> dispatch ext tr now dht ctx msg = Inr (dht', tr') \<longrightarrow>
      (\<exists>dht1 tr1. dht_addNode tr now dht ctx (NewRouteNode (Sender msg)) = Inr (dht1, tr1) \<and>
                  tables dht' = tables dht1))"
proof (intro conjI impI)
  assume "ctx < length (tables dht) \<and> Type msg = TypePing"
  then show "dispatch ext tr now dht ctx msg =
        Inr (dht, tr\<lparr>calls := calls tr @
               [Responded (RequestID msg)
                  \<lparr>Sender = Origin (htFromCtx dht ctx), Receiver = Sender msg, Type = TypePing,
                   RequestID = [], Data = NoData, Error = None, IsResponse = True\<rparr>]\<rparr>)"
    by (simp add: dispatch_def processPing_def SendResponse_def response_message_def)
next
  assume a: "Type msg \<noteq> TypePing \<and> dispatch ext tr now dht ctx msg = Inr (dht', tr')"
  show "\<exists>dht1 tr1. dht_addNode tr now dht ctx (NewRouteNode (Sender msg)) = Inr (dht1, tr1) \<and>
                  tables dht' = tables dht1"
  proof (cases "Type msg")
    case TypePing
    with a show ?thesis by simp
  next
    case TypeStore
    with a have "processStore ext tr now dht ctx msg = Inr (dht', tr')"
      by (simp add: dispatch_def split: if_splits)
    from processStore_adds_sender [OF this] show ?thesis by blast
  next
    case TypeFindNode
    with a have "processFindNode tr now dht ctx msg = Inr (dht', tr')"
      by (simp add: dispatch_def split: if_splits)
    from processFindNode_adds_sender [OF this] show ?thesis by blast
  next
    case TypeFindValue
    with a have "processFindValue tr now dht ctx msg = Inr (dht', tr')"
      by (simp add: dispatch_def split: if_splits)
    from processFindValue_adds_sender [OF this] show ?thesis by blast
  next
    case TypeRPC
    with a have "processRPC tr now dht ctx msg = Inr (dht', tr')"
      by (simp add: dispatch_def split: if_splits)
    from processRPC_adds_sender [OF this] show ?thesis by blast
  qed
qed

text \<open>Peer 1, unknown so far, sends a Ping and then a FindNode request to the node with
  one peer: the Ping leaves the routing table as it was, the FindNode request puts
  peer 1 at the tail of bucket 0.\<close>
theorem processPing_only_replies_witness:
  "(0 < length (tables example_single_dht) \<and> Type (example_request TypePing NoData) = TypePing \<and>
    map_sum id (\<lambda>(dht, tr). (tables dht, store dht, calls tr))
      (dispatch example_externals silent_transport 0 example_single_dht 0 (example_request TypePing NoData))
      = Inr ([example_single_table], [],
             [Responded [7, 7, 7]
                \<lparr>Sender = example_origin, Receiver = Node (example_peer 1), Type = TypePing,
                 RequestID = [], Data = NoData, Error = None, IsResponse = True\<rparr>])) \<and>
   (Type (example_request TypeFindNode (RequestDataFindNode example_key)) \<noteq> TypePing \<and>
    map_sum id (tables \<circ> fst)
      (dispatch example_externals silent_transport 0 example_single_dht 0
         (example_request TypeFindNode (RequestDataFindNode example_key)))
      = Inr [example_two_table] \<and>
    map_sum id (tables \<circ> fst)
      (dht_addNode silent_transport 0 example_single_dht 0
         (NewRouteNode (Sender (example_request TypeFindNode (RequestDataFindNode example_key)))))
      = Inr [example_two_table])"
proof -
  let ?ping = "example_request TypePing NoData"
  let ?find = "example_request TypeFindNode (RequestDataFindNode example_key)"
  have p1: "0 < length (tables example_single_dht) \<and> Type ?ping = TypePing"
    by code_simp
  have p2: "htFromCtx example_single_dht 0 = example_single_table"
    by code_simp
  have p3: "Sender ?ping = Node (example_peer 1) \<and> RequestID ?ping = [7, 7, 7]"
    by code_simp
  have p4: "tables example_single_dht = [example_single_table] \<and> store example_single_dht = [] \<and>
    calls silent_transport = [] \<and> Origin example_single_table = example_origin"
    by code_simp
  from processPing_only_replies [of 0 example_single_dht ?ping example_externals silent_transport 0] p1
  have "dispatch example_externals silent_transport 0 example_single_dht 0 ?ping =
        Inr (example_single_dht, silent_transport\<lparr>calls := calls silent_transport @
               [Responded (RequestID ?ping)
                  \<lparr>Sender = Origin (htFromCtx example_single_dht 0), Receiver = Sender ?ping,
                   Type = TypePing, RequestID = [], Data = NoData, Error = None,
                   IsResponse = True\<rparr>]\<rparr>)"
    by blast
  with p2 p3 p4 have P: "map_sum id (\<lambda>(dht, tr). (tables dht, store dht, calls tr))
      (dispatch example_externals silent_transport 0 example_single_dht 0 ?ping)
      = Inr ([example_single_table], [],
             [Responded [7, 7, 7]
                \<lparr>Sender = example_origin, Receiver = Node (example_peer 1), Type = TypePing,
                 RequestID = [], Data = NoData, Error = None, IsResponse = True\<rparr>])"
    by simp
  have f1: "Type ?find \<noteq> TypePing"
    by code_simp
  have f2: "map_sum id (tables \<circ> fst)
      (dispatch example_externals silent_transport 0 example_single_dht 0 ?find)
      = Inr [example_two_table]"
    by code_simp
  then obtain dht' tr' where f3:
    "dispatch example_externals silent_transport 0 example_single_dht 0 ?find = Inr (dht', tr')"
    and f4: "tables dht' = [example_two_table]"
    by (cases "dispatch example_externals silent_transport 0 example_single_dht 0 ?find") auto
  from processPing_only_replies [of 0 example_single_dht ?find example_externals silent_transport 0 dht' tr']
    f1 f3
  obtain dht1 tr1 where
    "dht_addNode silent_transport 0 example_single_dht 0 (NewRouteNode (Sender ?find)) = Inr (dht1, tr1)"
    and "tables dht' = tables dht1"
    by blast
  with f4 have F: "map_sum id (tables \<circ> fst)
      (dht_addNode silent_transport 0 example_single_dht 0 (NewRouteNode (Sender ?find)))
      = Inr [example_two_table]"
    by simp
  from p1 P f1 f2 F show ?thesis by blast
qed

subsection \<open>RemoteProcedureCall\<close>

text \<open>Claim C5. Let \<open>FindNode\<close> have found the target node, which is not the local
  node. When a response arrives, \<open>RemoteProcedureCall\<close> returns the result and a nil
  error if the response has success = true, and otherwise no result and an error
  whose message is the error string of the response; so the error is nil exactly when
  success is true. When no response arrives in time, the future is cancelled and the
  error is "timeout". When \<open>FindNode\<close> has not found the target, the error is
  "targetNode not found", which is not the timeout error.\<close>
theorem RemoteProcedureCall_outcomes:
  "(FindNode ext fuel tr now dht ctx target = Some (Inr ((Some n, True, None), dht1, tr1)) \<and>
    ctx < length (tables dht1) \<and> target \<noteq> GetOriginID ext dht1 ctx \<and>
    respond tr1 (rpc_request (Origin (htFromCtx dht1 ctx)) n method args) = (Some (Reply rsp), None) \<and>
    Data rsp = ResponseDataRPC success result err \<and>
    dht_addNode (tr1\<lparr>calls := calls tr1 @ [Requested (rpc_request (Origin (htFromCtx dht1 ctx)) n method args)]\<rparr>)
      now dht1 ctx (NewRouteNode (Sender rsp)) = Inr (dht2, tr2) \<longrightarrow>
      RemoteProcedureCall ext fuel tr now dht ctx target method args =
        Some (Inr ((if success then (result, None) else ([], Some err)), dht2, tr2))) \<and>
   (FindNode ext fuel tr now dht ctx target = Some (Inr ((Some n, True, None), dht1, tr1)) \<and>
    ctx < length (tables dht1) \<and> target \<noteq> GetOriginID ext dht1 ctx \<and>
    respond tr1 (rpc_request (Origin (htFromCtx dht1 ctx)) n method args) = (Some NoReply, None) \<longrightarrow>
      RemoteProcedureCall ext fuel tr now dht ctx target method args =
        Some (Inr (([], Some ''timeout''), dht1,
          tr1\<lparr>calls := calls tr1 @
            [Requested (rpc_request (Origin (htFromCtx dht1 ctx)) n method args),
             Cancelled (rpc_request (Origin (htFromCtx dht1 ctx)) n method args)]\<rparr>))) \<and>
   (FindNode ext fuel tr now dht ctx target = Some (Inr ((x, False, None), dht1, tr1)) \<and>
    ctx < length (tables dht1) \<longrightarrow>
      RemoteProcedureCall ext fuel tr now dht ctx target method args =
        Some (Inr (([], Some ''targetNode not found''), dht1, tr1))) \<and>
   ''targetNode not found'' \<noteq> ''timeout''"
  by (auto simp: RemoteProcedureCall_def call_found_node_def Let_def SendRequest_def Cancel_def)

text \<open>\<open>FindNode\<close> without the network: the target is the nearest contact of the routing
  table, or the routing table is empty.\<close>
lemma FindNode_in_table:
  assumes "length (base58_Decode ext key) = MaxContactsInBucket"
    and "ctx < length (tables dht)"
    and "ID (Origin (htFromCtx dht ctx)) \<noteq> base58_Decode ext key"
    and "GetClosestContacts (htFromCtx dht ctx) 1 (base58_Decode ext key) [] = [first]"
    and "ID first = base58_Decode ext key"
  shows "FindNode ext fuel tr now dht ctx key = Some (Inr ((Some first, True, None), dht, tr))"
  using assms by (simp add: FindNode_def Let_def)

lemma FindNode_empty_table:
  assumes "length (base58_Decode ext key) = MaxContactsInBucket"
    and "ctx < length (tables dht)"
    and "ID (Origin (htFromCtx dht ctx)) \<noteq> base58_Decode ext key"
    and "concat (RoutingTable (htFromCtx dht ctx)) = []"
  shows "FindNode ext fuel tr now dht ctx key = Some (Inr ((None, False, None), dht, tr))"
proof -
  have "GetClosestContacts (htFromCtx dht ctx) k (base58_Decode ext key) [] = []" for k
    unfolding GetClosestContacts_def sort_route_set_def assms(4) by simp
  with assms(1-3) show ?thesis
    by (simp add: FindNode_def Let_def find_by_iteration_def dht_iterate_def iterate_def set_table_same)
qed

text \<open>The node with one peer calls procedure \<open>s\<close> on that peer, in a network where the
  peer answers with a result, in one where it answers with the error of its handler,
  and in one where it does not answer; and the node that knows nobody calls a
  stranger.\<close>
theorem RemoteProcedureCall_outcomes_witness:
  "(\<exists>dht2 tr2.
      FindNode example_externals 0 rpc_ok_transport 0 example_single_dht 0 example_target
        = Some (Inr ((Some (Node (example_peer 0)), True, None), example_single_dht, rpc_ok_transport)) \<and>
      respond rpc_ok_transport example_rpc_request
        = (Some (Reply (rpc_answer True [120, 32, 121] [] example_rpc_request)), None) \<and>
      RemoteProcedureCall example_externals 0 rpc_ok_transport 0 example_single_dht 0
          example_target ''s'' [[120], [121]]
        = Some (Inr (([120, 32, 121], None), dht2, tr2))) \<and>
   (\<exists>dht2 tr2.
      respond rpc_error_transport example_rpc_request
        = (Some (Reply (rpc_answer False [] ''no such method'' example_rpc_request)), None) \<and>
      RemoteProcedureCall example_externals 0 rpc_error_transport 0 example_single_dht 0
          example_target ''s'' [[120], [121]]
        = Some (Inr (([], Some ''no such method''), dht2, tr2))) \<and>
   (respond silent_transport example_rpc_request = (Some NoReply, None) \<and>
    RemoteProcedureCall example_externals 0 silent_transport 0 example_single_dht 0
        example_target ''s'' [[120], [121]]
      = Some (Inr (([], Some ''timeout''), example_single_dht,
          silent_transport\<lparr>calls := calls silent_transport @
            [Requested example_rpc_request, Cancelled example_rpc_request]\<rparr>))) \<and>
   (FindNode example_externals 0 silent_transport 0 example_empty_dht 0 example_stranger
      = Some (Inr ((None, False, None), example_empty_dht, silent_transport)) \<and>
    RemoteProcedureCall example_externals 0 silent_transport 0 example_empty_dht 0
        example_stranger ''s'' [[120], [121]]
      = Some (Inr (([], Some ''targetNode not found''), example_empty_dht, silent_transport)))"
proof -
  let ?args = "[[120], [121]] :: bytes list"
  have k1: "length (base58_Decode example_externals example_target) = MaxContactsInBucket"
    by code_simp
  have k2: "0 < length (tables example_single_dht)"
    by code_simp
  have k3: "ID (Origin (htFromCtx example_single_dht 0)) \<noteq> base58_Decode example_externals example_target"
    by code_simp
  have k4: "GetClosestContacts (htFromCtx example_single_dht 0) 1
      (base58_Decode example_externals example_target) [] = [Node (example_peer 0)]"
    by code_simp
  have k5: "ID (Node (example_peer 0)) = base58_Decode example_externals example_target"
    by code_simp
  have found: "FindNode example_externals 0 tr 0 example_single_dht 0 example_target
      = Some (Inr ((Some (Node (example_peer 0)), True, None), example_single_dht, tr))" for tr
    by (rule FindNode_in_table [OF k1 k2 k3 k4 k5])
  have k6: "example_target \<noteq> GetOriginID example_externals example_single_dht 0"
    by code_simp
  have k7: "rpc_request (Origin (htFromCtx example_single_dht 0)) (Node (example_peer 0)) ''s'' ?args
      = example_rpc_request"
    by code_simp
  have ok1: "respond rpc_ok_transport example_rpc_request
      = (Some (Reply (rpc_answer True [120, 32, 121] [] example_rpc_request)), None)"
    by (simp add: rpc_ok_transport_def)
  have ok2: "Data (rpc_answer True [120, 32, 121] [] example_rpc_request)
      = ResponseDataRPC True [120, 32, 121] []"
    by (simp add: rpc_answer_def)
  have "map_sum id (tables \<circ> fst)
      (dht_addNode (rpc_ok_transport\<lparr>calls := calls rpc_ok_transport @ [Requested example_rpc_request]\<rparr>)
         0 example_single_dht 0
         (NewRouteNode (Sender (rpc_answer True [120, 32, 121] [] example_rpc_request))))
      = Inr [example_single_table]"
    by code_simp
  then obtain dht2 tr2 where ok3:
    "dht_addNode (rpc_ok_transport\<lparr>calls := calls rpc_ok_transport @ [Requested example_rpc_request]\<rparr>)
         0 example_single_dht 0
         (NewRouteNode (Sender (rpc_answer True [120, 32, 121] [] example_rpc_request)))
      = Inr (dht2, tr2)"
    by (cases "dht_addNode (rpc_ok_transport\<lparr>calls := calls rpc_ok_transport @ [Requested example_rpc_request]\<rparr>)
         0 example_single_dht 0
         (NewRouteNode (Sender (rpc_answer True [120, 32, 121] [] example_rpc_request)))") auto
  from RemoteProcedureCall_outcomes [of example_externals 0 rpc_ok_transport 0 example_single_dht 0
      example_target "Node (example_peer 0)" example_single_dht rpc_ok_transport "''s''" ?args
      "rpc_answer True [120, 32, 121] [] example_rpc_request" True "[120, 32, 121]" "[]" dht2 tr2]
    found k2 k6 ok1 ok2 ok3
  have A: "RemoteProcedureCall example_externals 0 rpc_ok_transport 0 example_single_dht 0
          example_target ''s'' ?args = Some (Inr (([120, 32, 121], None), dht2, tr2))"
    unfolding k7 by simp
  have er1: "respond rpc_error_transport example_rpc_request
      = (Some (Reply (rpc_answer False [] ''no such method'' example_rpc_request)), None)"
    by (simp add: rpc_error_transport_def)
  have er2: "Data (rpc_answer False [] ''no such method'' example_rpc_request)
      = ResponseDataRPC False [] ''no such method''"
    by (simp add: rpc_answer_def)
  have "map_sum id (tables \<circ> fst)
      (dht_addNode (rpc_error_transport\<lparr>calls := calls rpc_error_transport @ [Requested example_rpc_request]\<rparr>)
         0 example_single_dht 0
         (NewRouteNode (Sender (rpc_answer False [] ''no such method'' example_rpc_request))))
      = Inr [example_single_table]"
    by code_simp
  then obtain dht3 tr3 where er3:
    "dht_addNode (rpc_error_transport\<lparr>calls := calls rpc_error_transport @ [Requested example_rpc_request]\<rparr>)
         0 example_single_dht 0
         (NewRouteNode (Sender (rpc_answer False [] ''no such method'' example_rpc_request)))
      = Inr (dht3, tr3)"
    by (cases "dht_addNode (rpc_error_transport\<lparr>calls := calls rpc_error_transport @ [Requested example_rpc_request]\<rparr>)
         0 example_single_dht 0
         (NewRouteNode (Sender (rpc_answer False [] ''no such method'' example_rpc_request)))") auto
  from RemoteProcedureCall_outcomes [of example_externals 0 rpc_error_transport 0 example_single_dht 0
      example_target "Node (example_peer 0)" example_single_dht rpc_error_transport "''s''" ?args
      "rpc_answer False [] ''no such method'' example_rpc_request" False "[]" "''no such method''" dht3 tr3]
    found k2 k6 er1 er2 er3
  have B: "RemoteProcedureCall example_externals 0 rpc_error_transport 0 example_single_dht 0
          example_target ''s'' ?args = Some (Inr (([], Some ''no such method''), dht3, tr3))"
    unfolding k7 by simp
  have si1: "respond silent_transport example_rpc_request = (Some NoReply, None)"
    by (simp add: silent_transport_def)
  from RemoteProcedureCall_outcomes [of example_externals 0 silent_transport 0 example_single_dht 0
      example_target "Node (example_peer 0)" example_single_dht silent_transport "''s''" ?args]
    found k2 k6 si1
  have C: "RemoteProcedureCall example_externals 0 silent_transport 0 example_single_dht 0
        example_target ''s'' ?args
      = Some (Inr (([], Some ''timeout''), example_single_dht,
          silent_transport\<lparr>calls := calls silent_transport @
            [Requested example_rpc_request, Cancelled example_rpc_request]\<rparr>))"
    unfolding k7 by simp
  have n1: "length (base58_Decode example_externals example_stranger) = MaxContactsInBucket"
    by code_simp
  have n2: "0 < length (tables example_empty_dht)"
    by code_simp
  have n3: "ID (Origin (htFromCtx example_empty_dht 0)) \<noteq> base58_Decode example_externals example_stranger"
    by code_simp
  have n4: "concat (RoutingTable (htFromCtx example_empty_dht 0)) = []"
    by code_simp
  have missing: "FindNode example_externals 0 silent_transport 0 example_empty_dht 0 example_stranger
      = Some (Inr ((None, False, None), example_empty_dht, silent_transport))"
    by (rule FindNode_empty_table [OF n1 n2 n3 n4])
  from RemoteProcedureCall_outcomes [of example_externals 0 silent_transport 0 example_empty_dht 0
      example_stranger _ _ _ _ _ _ _ _ _ _ _ None] missing n2
  have D: "RemoteProcedureCall example_externals 0 silent_transport 0 example_empty_dht 0
        example_stranger ''s'' ?args
      = Some (Inr (([], Some ''targetNode not found''), example_empty_dht, silent_transport))"
    by blast
  from found [of rpc_ok_transport] ok1 A er1 B si1 C missing D show ?thesis
    by blast
qed

end
